theory Spec2Isabelle
  imports Main
begin

section \<open>Python values used by \<^verbatim>\<open>core/forms.py\<close>\<close>

text \<open>
  A Python \<^verbatim>\<open>str\<close> is a sequence of Unicode code points, so it is modelled as a list of
  naturals; \<open>length\<close> then counts what Python's \<^verbatim>\<open>len\<close> counts. \<open>str\<close> turns an ASCII
  literal into such a list; the accented letters of the source are written by code point.
\<close>

type_synonym pystr = "nat list"

definition str :: "string \<Rightarrow> pystr" where
  "str s = map of_char s"

text \<open>The code points Python's \<^verbatim>\<open>str.strip()\<close> removes (its whitespace table).\<close>

definition isspace :: "nat \<Rightarrow> bool" where
  "isspace c = ((9 \<le> c \<and> c \<le> 13) \<or> (28 \<le> c \<and> c \<le> 32) \<or> c = 133 \<or> c = 160
     \<or> c = 5760 \<or> (8192 \<le> c \<and> c \<le> 8202) \<or> c = 8232 \<or> c = 8233 \<or> c = 8239
     \<or> c = 8287 \<or> c = 12288)"

definition strip :: "pystr \<Rightarrow> pystr" where
  "strip s = rev (dropWhile isspace (rev (dropWhile isspace s)))"

text \<open>
  Truth value of what \<^verbatim>\<open>dict.get\<close> returns for a text key: \<^verbatim>\<open>None\<close> (key absent) and
  the empty string are false.
\<close>

definition truthy :: "pystr option \<Rightarrow> bool" where
  "truthy v = (case v of None \<Rightarrow> False | Some s \<Rightarrow> s \<noteq> [])"

section \<open>Validation errors\<close>

text \<open>
  A \<^verbatim>\<open>ValidationError\<close> carries a list of messages. \<open>Msg\<close> holds a message text given
  in the source; the other constructors are the framework's own errors, by error code
  (\<^verbatim>\<open>required\<close>, \<^verbatim>\<open>min_length\<close> with the limit and the length found,
  \<^verbatim>\<open>null_characters_not_allowed\<close>, \<^verbatim>\<open>invalid_choice\<close> with the value).
\<close>

datatype message =
    Msg pystr
  | Required
  | MinLength nat nat
  | NullCharacters
  | InvalidChoice pystr

type_synonym ValidationError = "message list"

text \<open>The four message texts of the source.\<close>

definition correo_duplicado :: pystr where
  "correo_duplicado =
     str ''Ya existe un usuario con este correo (no distingue may'' @ [250]
     @ str ''sculas/min'' @ [250] @ str ''sculas).''"

definition correo_obligatorio :: pystr where
  "correo_obligatorio = str ''El correo es obligatorio.''"

definition no_coinciden :: pystr where
  "no_coinciden = str ''Las contrase'' @ [241] @ str ''as no coinciden.''"

definition completar_ambas :: pystr where
  "completar_ambas =
     str ''Debes completar ambas contrase'' @ [241] @ str ''as si vas a cambiarla.''"

section \<open>Form fields of the framework\<close>

text \<open>
  \<^verbatim>\<open>forms.CharField(required=..., min_length=...).clean(value)\<close>: a value missing from the
  submitted data is \<^verbatim>\<open>None\<close>. \<^verbatim>\<open>to_python\<close> strips the value (\<^verbatim>\<open>strip=True\<close> is the
  default, which the source keeps); \<^verbatim>\<open>validate\<close> refuses an empty value of a required
  field; the validators run on a non-empty value only, the minimum length first, then
  the refusal of NUL characters, and their errors are collected.
\<close>

definition CharField_clean :: "bool \<Rightarrow> nat option \<Rightarrow> pystr option \<Rightarrow> ValidationError + pystr" where
  "CharField_clean required min_length raw =
     (let v = (case raw of None \<Rightarrow> [] | Some s \<Rightarrow> strip s) in
      if v = [] then (if required then Inl [Required] else Inr [])
      else
        (let es = (case min_length of
                     None \<Rightarrow> []
                   | Some m \<Rightarrow> if length v < m then [MinLength m (length v)] else [])
                  @ (if 0 \<in> set v then [NullCharacters] else [])
         in if es = [] then Inr v else Inl es))"

text \<open>A field left empty: nothing was submitted for it, or only whitespace.\<close>

definition blank :: "pystr option \<Rightarrow> bool" where
  "blank raw = (case raw of None \<Rightarrow> True | Some s \<Rightarrow> strip s = [])"

text \<open>
  \<^verbatim>\<open>forms.ChoiceField(choices=..., required=...).clean(value)\<close>: the value is not
  stripped; an empty value of a required field is refused, and a non-empty value must be
  the key of one of the choices.
\<close>

definition ChoiceField_clean ::
  "(pystr \<times> pystr) list \<Rightarrow> bool \<Rightarrow> pystr option \<Rightarrow> ValidationError + pystr" where
  "ChoiceField_clean choices required raw =
     (let v = (case raw of None \<Rightarrow> [] | Some s \<Rightarrow> s) in
      if v = [] then (if required then Inl [Required] else Inr [])
      else if v \<in> set (map fst choices) then Inr v
      else Inl [InvalidChoice v])"

section \<open>The roles\<close>

definition ROL_CHOICES :: "(pystr \<times> pystr) list" where
  "ROL_CHOICES =
     [(str ''Administrador'', str ''Administrador''),
      (str ''Direcci'' @ [243] @ str ''n'', str ''Direcci'' @ [243] @ str ''n''),
      (str ''Departamento'', str ''Departamento''),
      (str ''Jefe de Cuadrilla'', str ''Jefe de Cuadrilla''),
      (str ''Territorial'', str ''Territorial'')]"

text \<open>The field \<^verbatim>\<open>rol\<close> of both forms: \<^verbatim>\<open>ChoiceField(choices=ROL_CHOICES, required=True)\<close>.\<close>

definition rol_clean :: "pystr option \<Rightarrow> ValidationError + pystr" where
  "rol_clean raw = ChoiceField_clean ROL_CHOICES True raw"

section \<open>The framework's models and tables\<close>

text \<open>
  The fields of \<^verbatim>\<open>django.contrib.auth.models.User\<close> that the forms edit, and its primary
  key, which is \<^verbatim>\<open>None\<close> until the object has been saved. \<^verbatim>\<open>Group\<close> has an id and a
  name. The database is the three tables behind them: the users, the groups, and the
  rows (user id, group id) of the many-to-many relation \<^verbatim>\<open>user.groups\<close>. The columns
  the forms never touch (\<^verbatim>\<open>is_superuser\<close>, \<^verbatim>\<open>last_login\<close>, \<^verbatim>\<open>date_joined\<close>) are left out.
\<close>

record user =
  pk :: "nat option"
  username :: pystr
  first_name :: pystr
  last_name :: pystr
  email :: pystr
  password :: pystr
  is_active :: bool
  is_staff :: bool

record group =
  group_id :: nat
  group_name :: pystr

record db =
  auth_user :: "user list"
  auth_group :: "group list"
  auth_user_groups :: "(nat \<times> nat) list"

datatype field =
    F_username | F_first_name | F_last_name | F_email | F_is_active | F_is_staff
  | F_password1 | F_password2 | F_rol | NON_FIELD_ERRORS

text \<open>The exceptions other than \<^verbatim>\<open>ValidationError\<close> that the code can raise.\<close>

datatype exn = KeyError field | ValueError | MultipleObjectsReturned

text \<open>The id an auto-increment column gives the next inserted row.\<close>

definition next_id :: "nat list \<Rightarrow> nat" where
  "next_id ids = Suc (fold max ids 0)"

text \<open>
  \<^verbatim>\<open>user.save()\<close>: an object without primary key is inserted and gets a fresh one; an
  object with a primary key replaces the row that has it, and is inserted when no row has.
  The object, with its key, and the new tables are returned. A row that breaks a
  constraint of the table (a user name in use) is not modelled: the validation of the
  model form refuses it before \<^verbatim>\<open>save\<close>.
\<close>

definition Model_save :: "user \<Rightarrow> db \<Rightarrow> user \<times> db" where
  "Model_save u d =
     (case pk u of
        None \<Rightarrow>
          (let u' = u\<lparr>pk := Some (next_id (List.map_filter pk (auth_user d)))\<rparr>
           in (u', d\<lparr>auth_user := auth_user d @ [u']\<rparr>))
      | Some k \<Rightarrow>
          if Some k \<in> set (map pk (auth_user d))
          then (u, d\<lparr>auth_user := map (\<lambda>r. if pk r = Some k then u else r) (auth_user d)\<rparr>)
          else (u, d\<lparr>auth_user := auth_user d @ [u]\<rparr>))"

text \<open>\<^verbatim>\<open>user.groups.clear()\<close> for the user with key \<open>k\<close>: all its rows are deleted.\<close>

definition groups_clear :: "nat \<Rightarrow> db \<Rightarrow> db" where
  "groups_clear k d = d\<lparr>auth_user_groups := filter (\<lambda>(u, g). u \<noteq> k) (auth_user_groups d)\<rparr>"

text \<open>
  \<^verbatim>\<open>Group.objects.get_or_create(name=n)\<close>: the group of that name and \<^verbatim>\<open>False\<close>, or a
  new group and \<^verbatim>\<open>True\<close>; several groups of that name raise.
\<close>

definition get_or_create :: "pystr \<Rightarrow> db \<Rightarrow> exn + ((group \<times> bool) \<times> db)" where
  "get_or_create n d =
     (case filter (\<lambda>g. group_name g = n) (auth_group d) of
        [] \<Rightarrow>
          (let g = \<lparr>group_id = next_id (map group_id (auth_group d)), group_name = n\<rparr>
           in Inr ((g, True), d\<lparr>auth_group := auth_group d @ [g]\<rparr>))
      | [g] \<Rightarrow> Inr ((g, False), d)
      | _ \<Rightarrow> Inl MultipleObjectsReturned)"

text \<open>\<^verbatim>\<open>user.groups.add(group)\<close>: a row is added unless it is there already.\<close>

definition groups_add :: "nat \<Rightarrow> group \<Rightarrow> db \<Rightarrow> db" where
  "groups_add k g d =
     (if (k, group_id g) \<in> set (auth_user_groups d) then d
      else d\<lparr>auth_user_groups := auth_user_groups d @ [(k, group_id g)]\<rparr>)"

text \<open>The ids of the groups a user is in, and their names in the table of groups.\<close>

definition group_ids_of :: "db \<Rightarrow> nat \<Rightarrow> nat list" where
  "group_ids_of d k = map snd (filter (\<lambda>(u, g). u = k) (auth_user_groups d))"

definition group_names_of :: "db \<Rightarrow> nat \<Rightarrow> pystr list" where
  "group_names_of d k =
     map group_name (filter (\<lambda>g. group_id g \<in> set (group_ids_of d k)) (auth_group d))"

section \<open>Forms: cleaned data, errors, instance\<close>

text \<open>
  \<^verbatim>\<open>cleaned_data\<close> is a dictionary with one key for each field of the form; a key that
  is absent is \<open>None\<close>. The state of a bound form is its cleaned data, its errors in the
  order they were added (one entry for each call of \<^verbatim>\<open>add_error\<close>, with the field it is
  attached to), and the model instance. The form is valid when it has no errors.
\<close>

record cleaned_data =
  cd_username :: "pystr option"
  cd_first_name :: "pystr option"
  cd_last_name :: "pystr option"
  cd_email :: "pystr option"
  cd_is_active :: "bool option"
  cd_is_staff :: "bool option"
  cd_password1 :: "pystr option"
  cd_password2 :: "pystr option"
  cd_rol :: "pystr option"

record form =
  cleaned_data :: cleaned_data
  errors :: "(field \<times> ValidationError) list"
  inst :: user

definition is_valid :: "form \<Rightarrow> bool" where
  "is_valid f = (errors f = [])"

text \<open>The messages attached to a field, \<^verbatim>\<open>form.errors[name]\<close>.\<close>

definition field_errors :: "field \<Rightarrow> form \<Rightarrow> message list" where
  "field_errors name f = concat (map snd (filter (\<lambda>x. fst x = name) (errors f)))"

definition empty_cleaned_data :: cleaned_data where
  "empty_cleaned_data =
     \<lparr>cd_username = None, cd_first_name = None, cd_last_name = None, cd_email = None,
      cd_is_active = None, cd_is_staff = None, cd_password1 = None, cd_password2 = None,
      cd_rol = None\<rparr>"

text \<open>
  What the forms take from the framework and the database backend without fixing it:
  how the lookup \<^verbatim>\<open>email__iexact\<close> compares a stored email with a value, the password
  hasher behind \<^verbatim>\<open>set_password\<close>, the cleaning of the form fields generated from the
  model (text fields and checkboxes), the validation of the model instance, which
  gives errors attached to fields, Python's \<^verbatim>\<open>str.lower\<close>, and the normalisation of the
  user name (\<^verbatim>\<open>normalize_username\<close>, the Unicode form NFKC).
\<close>

record django =
  iexact :: "pystr \<Rightarrow> pystr \<Rightarrow> bool"
  make_password :: "pystr \<Rightarrow> pystr"
  text_field_clean :: "field \<Rightarrow> pystr option \<Rightarrow> ValidationError + pystr"
  flag_field_clean :: "field \<Rightarrow> pystr option \<Rightarrow> ValidationError + bool"
  model_validation :: "form \<Rightarrow> db \<Rightarrow> (field \<times> ValidationError) list"
  str_lower :: "pystr \<Rightarrow> pystr"
  normalize_username :: "pystr \<Rightarrow> pystr"

fun del_key :: "field \<Rightarrow> cleaned_data \<Rightarrow> cleaned_data" where
  "del_key F_username c = c\<lparr>cd_username := None\<rparr>"
| "del_key F_first_name c = c\<lparr>cd_first_name := None\<rparr>"
| "del_key F_last_name c = c\<lparr>cd_last_name := None\<rparr>"
| "del_key F_email c = c\<lparr>cd_email := None\<rparr>"
| "del_key F_is_active c = c\<lparr>cd_is_active := None\<rparr>"
| "del_key F_is_staff c = c\<lparr>cd_is_staff := None\<rparr>"
| "del_key F_password1 c = c\<lparr>cd_password1 := None\<rparr>"
| "del_key F_password2 c = c\<lparr>cd_password2 := None\<rparr>"
| "del_key F_rol c = c\<lparr>cd_rol := None\<rparr>"
| "del_key NON_FIELD_ERRORS c = c"

text \<open>
  \<^verbatim>\<open>form.add_error(field, error)\<close>: the messages are attached to the field and the
  field's key is removed from the cleaned data.
\<close>

definition add_error :: "field \<Rightarrow> ValidationError \<Rightarrow> form \<Rightarrow> form" where
  "add_error name e f =
     f\<lparr>errors := errors f @ [(name, e)],
       cleaned_data := del_key name (cleaned_data f)\<rparr>"

text \<open>
  One round of the loop of \<^verbatim>\<open>_clean_fields\<close>: \<open>r\<close> is what the field's own \<^verbatim>\<open>clean\<close>
  gave, \<open>put\<close> stores a value under the field's key. The method \<^verbatim>\<open>clean_<name>\<close> of the
  form, when there is one, runs only after the field accepted the value, and what it
  returns replaces the value; a \<^verbatim>\<open>ValidationError\<close> of either is attached to the field.
\<close>

definition clean_field ::
  "field \<Rightarrow> ('a option \<Rightarrow> cleaned_data \<Rightarrow> cleaned_data) \<Rightarrow> ValidationError + 'a
    \<Rightarrow> (form \<Rightarrow> ValidationError + 'a) option \<Rightarrow> form \<Rightarrow> form" where
  "clean_field name put r hook f =
     (case r of
        Inl e \<Rightarrow> add_error name e f
      | Inr v \<Rightarrow>
          (let f1 = f\<lparr>cleaned_data := put (Some v) (cleaned_data f)\<rparr> in
           case hook of
             None \<Rightarrow> f1
           | Some h \<Rightarrow>
               (case h f1 of
                  Inl e \<Rightarrow> add_error name e f1
                | Inr v' \<Rightarrow> f1\<lparr>cleaned_data := put (Some v') (cleaned_data f1)\<rparr>)))"

text \<open>What a field leaves under its key when its \<^verbatim>\<open>clean\<close> gave \<open>r\<close>.\<close>

definition cleaned_of :: "ValidationError + 'a \<Rightarrow> 'a option" where
  "cleaned_of r = (case r of Inl e \<Rightarrow> None | Inr v \<Rightarrow> Some v)"

text \<open>\<^verbatim>\<open>Meta.fields\<close> of both model forms.\<close>

definition Meta_fields :: "field list" where
  "Meta_fields = [F_username, F_first_name, F_last_name, F_email, F_is_active, F_is_staff]"

text \<open>
  \<^verbatim>\<open>construct_instance\<close>, which \<^verbatim>\<open>_post_clean\<close> runs: each field of \<^verbatim>\<open>Meta.fields\<close>
  whose key is in the cleaned data is copied to the instance.
\<close>

definition construct_instance :: "cleaned_data \<Rightarrow> user \<Rightarrow> user" where
  "construct_instance c u =
     u\<lparr>username := (case cd_username c of None \<Rightarrow> username u | Some v \<Rightarrow> v),
       first_name := (case cd_first_name c of None \<Rightarrow> first_name u | Some v \<Rightarrow> v),
       last_name := (case cd_last_name c of None \<Rightarrow> last_name u | Some v \<Rightarrow> v),
       email := (case cd_email c of None \<Rightarrow> email u | Some v \<Rightarrow> v),
       is_active := (case cd_is_active c of None \<Rightarrow> is_active u | Some v \<Rightarrow> v),
       is_staff := (case cd_is_staff c of None \<Rightarrow> is_staff u | Some v \<Rightarrow> v)\<rparr>"

text \<open>
  \<^verbatim>\<open>UserManager.normalize_email\<close>: an email with an \<^verbatim>\<open>@\<close> (code point 64) is stripped
  and the part after its last \<^verbatim>\<open>@\<close> is put in small letters; an email without \<^verbatim>\<open>@\<close> is
  returned as it is.
\<close>

definition normalize_email :: "django \<Rightarrow> pystr \<Rightarrow> pystr" where
  "normalize_email dj em =
     (let s = strip em in
      if 64 \<in> set s
      then rev (tl (dropWhile (\<lambda>c. c \<noteq> 64) (rev s))) @ [64]
           @ str_lower dj (rev (takeWhile (\<lambda>c. c \<noteq> 64) (rev s)))
      else em)"

text \<open>
  \<^verbatim>\<open>User.clean()\<close>, which \<^verbatim>\<open>instance.full_clean()\<close> always runs: the user name and the
  email of the instance are normalised.
\<close>

definition User_clean :: "django \<Rightarrow> user \<Rightarrow> user" where
  "User_clean dj u =
     u\<lparr>username := normalize_username dj (username u),
       email := normalize_email dj (email u)\<rparr>"

text \<open>
  \<^verbatim>\<open>_post_clean\<close> of a model form: the instance is constructed from the cleaned data
  and validated by \<^verbatim>\<open>instance.full_clean()\<close>, which runs \<^verbatim>\<open>User.clean()\<close> on it, and the
  errors of that validation are added to the form. The model is validated on the fields
  the form takes from it, so an error is attached to one of \<^verbatim>\<open>Meta.fields\<close> or to the
  form as a whole. The validation is given the form with the instance as constructed;
  the normalised instance follows from it.
\<close>

definition post_clean :: "django \<Rightarrow> db \<Rightarrow> form \<Rightarrow> form" where
  "post_clean dj d f =
     (let f1 = f\<lparr>inst := construct_instance (cleaned_data f) (inst f)\<rparr>;
          f2 = f1\<lparr>inst := User_clean dj (inst f1)\<rparr>
      in fold (\<lambda>(name, e). add_error name e)
           (filter (\<lambda>(name, e). name \<in> set Meta_fields \<or> name = NON_FIELD_ERRORS)
              (model_validation dj f1 d))
           f2)"

text \<open>
  \<^verbatim>\<open>ModelForm.save(commit=False)\<close>, which both forms call through \<^verbatim>\<open>super()\<close>: a form
  with errors raises, a valid one gives its instance.
\<close>

definition ModelForm_save :: "form \<Rightarrow> exn + user" where
  "ModelForm_save f = (if errors f \<noteq> [] then Inl ValueError else Inr (inst f))"

text \<open>\<^verbatim>\<open>user.set_password(raw)\<close> stores the hash of the raw password.\<close>

definition set_password :: "django \<Rightarrow> pystr \<Rightarrow> user \<Rightarrow> user" where
  "set_password dj raw u = u\<lparr>password := make_password dj raw\<rparr>"

section \<open>\<^verbatim>\<open>validar_email_unico_ci\<close>\<close>

definition validar_email_unico_ci :: "django \<Rightarrow> db \<Rightarrow> pystr \<Rightarrow> ValidationError + unit" where
  "validar_email_unico_ci dj d val =
     (if filter (\<lambda>u. iexact dj (email u) val) (auth_user d) \<noteq> []
      then Inl [Msg correo_duplicado]
      else Inr ())"

section \<open>\<^verbatim>\<open>UsuarioCrearForm\<close>\<close>

definition UsuarioCrearForm_clean_email :: "django \<Rightarrow> db \<Rightarrow> form \<Rightarrow> ValidationError + pystr" where
  "UsuarioCrearForm_clean_email dj d f =
     (let em = strip (case cd_email (cleaned_data f) of None \<Rightarrow> [] | Some e \<Rightarrow> e) in
      if em = [] then Inl [Msg correo_obligatorio]
      else
        (case validar_email_unico_ci dj d em of
           Inl e \<Rightarrow> Inl e
         | Inr _ \<Rightarrow> Inr em))"

definition UsuarioCrearForm_clean :: "form \<Rightarrow> form" where
  "UsuarioCrearForm_clean f =
     (let p1 = cd_password1 (cleaned_data f);
          p2 = cd_password2 (cleaned_data f)
      in if truthy p1 \<and> truthy p2 \<and> p1 \<noteq> p2
         then add_error F_password2 [Msg no_coinciden] f
         else f)"

text \<open>
  The fields in the order of the form: those of \<^verbatim>\<open>Meta.fields\<close>, then the declared
  \<^verbatim>\<open>password1\<close> (required, at least 8 characters), \<^verbatim>\<open>password2\<close> (required) and \<^verbatim>\<open>rol\<close>.
  \<open>data\<close> is the submitted data.
\<close>

definition UsuarioCrearForm_clean_fields ::
  "django \<Rightarrow> db \<Rightarrow> (field \<rightharpoonup> pystr) \<Rightarrow> form \<Rightarrow> form" where
  "UsuarioCrearForm_clean_fields dj d data f0 =
     (let f1 = clean_field F_username (\<lambda>v c. c\<lparr>cd_username := v\<rparr>)
                 (text_field_clean dj F_username (data F_username)) None f0;
          f2 = clean_field F_first_name (\<lambda>v c. c\<lparr>cd_first_name := v\<rparr>)
                 (text_field_clean dj F_first_name (data F_first_name)) None f1;
          f3 = clean_field F_last_name (\<lambda>v c. c\<lparr>cd_last_name := v\<rparr>)
                 (text_field_clean dj F_last_name (data F_last_name)) None f2;
          f4 = clean_field F_email (\<lambda>v c. c\<lparr>cd_email := v\<rparr>)
                 (text_field_clean dj F_email (data F_email))
                 (Some (UsuarioCrearForm_clean_email dj d)) f3;
          f5 = clean_field F_is_active (\<lambda>v c. c\<lparr>cd_is_active := v\<rparr>)
                 (flag_field_clean dj F_is_active (data F_is_active)) None f4;
          f6 = clean_field F_is_staff (\<lambda>v c. c\<lparr>cd_is_staff := v\<rparr>)
                 (flag_field_clean dj F_is_staff (data F_is_staff)) None f5;
          f7 = clean_field F_password1 (\<lambda>v c. c\<lparr>cd_password1 := v\<rparr>)
                 (CharField_clean True (Some 8) (data F_password1)) None f6;
          f8 = clean_field F_password2 (\<lambda>v c. c\<lparr>cd_password2 := v\<rparr>)
                 (CharField_clean True None (data F_password2)) None f7
      in clean_field F_rol (\<lambda>v c. c\<lparr>cd_rol := v\<rparr>) (rol_clean (data F_rol)) None f8)"

text \<open>
  \<^verbatim>\<open>full_clean\<close> of the bound form for the instance \<open>u\<close>: the fields, then \<^verbatim>\<open>clean\<close>, then
  \<^verbatim>\<open>_post_clean\<close>.
\<close>

definition UsuarioCrearForm_full_clean ::
  "django \<Rightarrow> db \<Rightarrow> (field \<rightharpoonup> pystr) \<Rightarrow> user \<Rightarrow> form" where
  "UsuarioCrearForm_full_clean dj d data u =
     post_clean dj d
       (UsuarioCrearForm_clean
          (UsuarioCrearForm_clean_fields dj d data
             \<lparr>cleaned_data = empty_cleaned_data, errors = [], inst = u\<rparr>))"

text \<open>
  \<^verbatim>\<open>save\<close>, statement by statement. \<^verbatim>\<open>cleaned_data[...]\<close> of an absent key raises
  \<^verbatim>\<open>KeyError\<close>; \<^verbatim>\<open>user.groups\<close> of an object without primary key raises \<^verbatim>\<open>ValueError\<close>
  (after \<^verbatim>\<open>user.save()\<close> the object has one). The user and the tables are returned.
\<close>

definition UsuarioCrearForm_save :: "django \<Rightarrow> bool \<Rightarrow> form \<Rightarrow> db \<Rightarrow> exn + (user \<times> db)" where
  "UsuarioCrearForm_save dj commit f d =
     (case ModelForm_save f of
        Inl x \<Rightarrow> Inl x
      | Inr u0 \<Rightarrow>
          (case cd_password1 (cleaned_data f) of
             None \<Rightarrow> Inl (KeyError F_password1)
           | Some p1 \<Rightarrow>
               (let u1 = set_password dj p1 u0 in
                if commit then
                  (let (u2, d1) = Model_save u1 d in
                   case pk u2 of
                     None \<Rightarrow> Inl ValueError
                   | Some k \<Rightarrow>
                       (let d2 = groups_clear k d1 in
                        case cd_rol (cleaned_data f) of
                          None \<Rightarrow> Inl (KeyError F_rol)
                        | Some r \<Rightarrow>
                            (case get_or_create r d2 of
                               Inl x \<Rightarrow> Inl x
                             | Inr ((g, _), d3) \<Rightarrow> Inr (u2, groups_add k g d3))))
                else Inr (u1, d))))"

section \<open>\<^verbatim>\<open>UsuarioEditarForm\<close>\<close>

definition UsuarioEditarForm_clean_email :: "django \<Rightarrow> db \<Rightarrow> form \<Rightarrow> ValidationError + pystr" where
  "UsuarioEditarForm_clean_email dj d f =
     (let em = strip (case cd_email (cleaned_data f) of None \<Rightarrow> [] | Some e \<Rightarrow> e) in
      if em = [] then Inl [Msg correo_obligatorio]
      else if filter (\<lambda>u. pk u \<noteq> pk (inst f))
                (filter (\<lambda>u. iexact dj (email u) em) (auth_user d)) \<noteq> []
      then Inl [Msg correo_duplicado]
      else Inr em)"

definition UsuarioEditarForm_clean :: "form \<Rightarrow> form" where
  "UsuarioEditarForm_clean f =
     (let p1 = cd_password1 (cleaned_data f);
          p2 = cd_password2 (cleaned_data f)
      in if truthy p1 \<or> truthy p2 then
           (if \<not> truthy p1 \<or> \<not> truthy p2
            then add_error F_password2 [Msg completar_ambas] f
            else if p1 \<noteq> p2
            then add_error F_password2 [Msg no_coinciden] f
            else f)
         else f)"

text \<open>As in the other form, but neither password is required.\<close>

definition UsuarioEditarForm_clean_fields ::
  "django \<Rightarrow> db \<Rightarrow> (field \<rightharpoonup> pystr) \<Rightarrow> form \<Rightarrow> form" where
  "UsuarioEditarForm_clean_fields dj d data f0 =
     (let f1 = clean_field F_username (\<lambda>v c. c\<lparr>cd_username := v\<rparr>)
                 (text_field_clean dj F_username (data F_username)) None f0;
          f2 = clean_field F_first_name (\<lambda>v c. c\<lparr>cd_first_name := v\<rparr>)
                 (text_field_clean dj F_first_name (data F_first_name)) None f1;
          f3 = clean_field F_last_name (\<lambda>v c. c\<lparr>cd_last_name := v\<rparr>)
                 (text_field_clean dj F_last_name (data F_last_name)) None f2;
          f4 = clean_field F_email (\<lambda>v c. c\<lparr>cd_email := v\<rparr>)
                 (text_field_clean dj F_email (data F_email))
                 (Some (UsuarioEditarForm_clean_email dj d)) f3;
          f5 = clean_field F_is_active (\<lambda>v c. c\<lparr>cd_is_active := v\<rparr>)
                 (flag_field_clean dj F_is_active (data F_is_active)) None f4;
          f6 = clean_field F_is_staff (\<lambda>v c. c\<lparr>cd_is_staff := v\<rparr>)
                 (flag_field_clean dj F_is_staff (data F_is_staff)) None f5;
          f7 = clean_field F_password1 (\<lambda>v c. c\<lparr>cd_password1 := v\<rparr>)
                 (CharField_clean False (Some 8) (data F_password1)) None f6;
          f8 = clean_field F_password2 (\<lambda>v c. c\<lparr>cd_password2 := v\<rparr>)
                 (CharField_clean False None (data F_password2)) None f7
      in clean_field F_rol (\<lambda>v c. c\<lparr>cd_rol := v\<rparr>) (rol_clean (data F_rol)) None f8)"

definition UsuarioEditarForm_full_clean ::
  "django \<Rightarrow> db \<Rightarrow> (field \<rightharpoonup> pystr) \<Rightarrow> user \<Rightarrow> form" where
  "UsuarioEditarForm_full_clean dj d data u =
     post_clean dj d
       (UsuarioEditarForm_clean
          (UsuarioEditarForm_clean_fields dj d data
             \<lparr>cleaned_data = empty_cleaned_data, errors = [], inst = u\<rparr>))"

text \<open>
  \<^verbatim>\<open>save\<close>: \<^verbatim>\<open>set_password\<close> runs only when \<^verbatim>\<open>cleaned_data.get("password1")\<close> is a
  non-empty string; the rest is as in \<^verbatim>\<open>UsuarioCrearForm\<close>.
\<close>

definition UsuarioEditarForm_save :: "django \<Rightarrow> bool \<Rightarrow> form \<Rightarrow> db \<Rightarrow> exn + (user \<times> db)" where
  "UsuarioEditarForm_save dj commit f d =
     (case ModelForm_save f of
        Inl x \<Rightarrow> Inl x
      | Inr u0 \<Rightarrow>
          (let u1 = (case cd_password1 (cleaned_data f) of
                       None \<Rightarrow> u0
                     | Some p1 \<Rightarrow> if p1 \<noteq> [] then set_password dj p1 u0 else u0)
           in if commit then
                (let (u2, d1) = Model_save u1 d in
                 case pk u2 of
                   None \<Rightarrow> Inl ValueError
                 | Some k \<Rightarrow>
                     (let d2 = groups_clear k d1 in
                      case cd_rol (cleaned_data f) of
                        None \<Rightarrow> Inl (KeyError F_rol)
                      | Some r \<Rightarrow>
                          (case get_or_create r d2 of
                             Inl x \<Rightarrow> Inl x
                           | Inr ((g, _), d3) \<Rightarrow> Inr (u2, groups_add k g d3))))
              else Inr (u1, d)))"

section \<open>\<^verbatim>\<open>UsuarioToggleActivoForm\<close>\<close>

text \<open>
  \<^verbatim>\<open>next_state_label(self, user)\<close>. The method is given the user object and runs with
  the database at hand, so both are passed and returned with the label.
\<close>

definition next_state_label :: "user \<Rightarrow> db \<Rightarrow> pystr \<times> user \<times> db" where
  "next_state_label u d = (if is_active u then str ''Desactivar'' else str ''Activar'', u, d)"

section \<open>The statements under \<^verbatim>\<open>if commit:\<close>\<close>

text \<open>
  Both \<^verbatim>\<open>save\<close> methods end with the same statements; \<open>commit_steps\<close> is that common
  part, taken out of the two definitions above to reason about it once.
\<close>

definition commit_steps :: "form \<Rightarrow> user \<Rightarrow> db \<Rightarrow> exn + (user \<times> db)" where
  "commit_steps f u1 d =
     (let (u2, d1) = Model_save u1 d in
      case pk u2 of
        None \<Rightarrow> Inl ValueError
      | Some k \<Rightarrow>
          (let d2 = groups_clear k d1 in
           case cd_rol (cleaned_data f) of
             None \<Rightarrow> Inl (KeyError F_rol)
           | Some r \<Rightarrow>
               (case get_or_create r d2 of
                  Inl x \<Rightarrow> Inl x
                | Inr ((g, _), d3) \<Rightarrow> Inr (u2, groups_add k g d3))))"

section \<open>A sample installation\<close>

text \<open>
  Concrete values of the framework's parameters and a small database, on which the
  definitions above can be run: the lookup \<^verbatim>\<open>iexact\<close> compares after mapping the ASCII
  capitals to small letters, as does \<^verbatim>\<open>str.lower\<close>, the hasher puts a marker before the
  password, the text fields of the model are plain character fields (only the user name
  is required), a checkbox is true when it was sent, the model validation finds nothing,
  and the normalisation of the user name changes nothing.
\<close>

definition ascii_lower :: "nat \<Rightarrow> nat" where
  "ascii_lower c = (if 65 \<le> c \<and> c \<le> 90 then c + 32 else c)"

definition sample_django :: django where
  "sample_django =
     \<lparr>iexact = (\<lambda>a b. map ascii_lower a = map ascii_lower b),
      make_password = (\<lambda>p. str ''hash:'' @ p),
      text_field_clean = (\<lambda>name raw. CharField_clean (name = F_username) None raw),
      flag_field_clean = (\<lambda>name raw. Inr (raw \<noteq> None)),
      model_validation = (\<lambda>f d. []),
      str_lower = map ascii_lower,
      normalize_username = (\<lambda>s. s)\<rparr>"

definition ana :: user where
  "ana = \<lparr>pk = Some 1, username = str ''ana'', first_name = str ''Ana'', last_name = str ''Rojas'',
           email = str ''ana@muni.cl'', password = str ''hash:secreto123'',
           is_active = True, is_staff = False\<rparr>"

definition luis :: user where
  "luis = \<lparr>pk = Some 2, username = str ''luis'', first_name = str ''Luis'', last_name = [],
            email = [], password = str ''hash:otraclave'',
            is_active = False, is_staff = False\<rparr>"

definition nuevo :: user where
  "nuevo = \<lparr>pk = None, username = [], first_name = [], last_name = [], email = [],
             password = [], is_active = True, is_staff = False\<rparr>"

definition sample_db :: db where
  "sample_db =
     \<lparr>auth_user = [ana, luis],
      auth_group = [\<lparr>group_id = 1, group_name = str ''Territorial''\<rparr>,
                    \<lparr>group_id = 2, group_name = str ''Departamento''\<rparr>],
      auth_user_groups = [(1, 1), (2, 2), (1, 2)]\<rparr>"

definition empty_db :: db where
  "empty_db = \<lparr>auth_user = [], auth_group = [], auth_user_groups = []\<rparr>"

text \<open>
  Two submissions: \<open>alta\<close> creates the user eva with the role Administrador, \<open>edicion\<close>
  edits ana, writing her email in capitals and leaving both passwords empty.
\<close>

definition alta :: "field \<rightharpoonup> pystr" where
  "alta = [F_username \<mapsto> str ''eva'', F_first_name \<mapsto> str ''Eva'', F_last_name \<mapsto> str ''Soto'',
           F_email \<mapsto> str ''eva@muni.cl'', F_is_active \<mapsto> str ''on'',
           F_password1 \<mapsto> str ''clave1234'', F_password2 \<mapsto> str ''clave1234'',
           F_rol \<mapsto> str ''Administrador'']"

definition edicion :: "field \<rightharpoonup> pystr" where
  "edicion = [F_username \<mapsto> str ''ana'', F_first_name \<mapsto> str ''Ana'', F_last_name \<mapsto> str ''Rojas'',
              F_email \<mapsto> str ''ANA@MUNI.CL'', F_is_active \<mapsto> str ''on'',
              F_password1 \<mapsto> [], F_password2 \<mapsto> [],
              F_rol \<mapsto> str ''Administrador'']"

section \<open>Properties\<close>

subsection \<open>How the steps of \<^verbatim>\<open>full_clean\<close> act on errors and cleaned data\<close>

lemma errors_add_error [simp]: "errors (add_error n e f) = errors f @ [(n, e)]"
  and inst_add_error [simp]: "inst (add_error n e f) = inst f"
  and cleaned_add_error [simp]: "cleaned_data (add_error n e f) = del_key n (cleaned_data f)"
  by (simp_all add: add_error_def)

lemma field_errors_add_error [simp]:
  "field_errors n' (add_error n e f) = field_errors n' f @ (if n' = n then e else [])"
  by (simp add: field_errors_def)

lemma field_errors_simps [simp]:
  "field_errors n (f\<lparr>cleaned_data := c\<rparr>) = field_errors n f"
  "field_errors n (f\<lparr>inst := u\<rparr>) = field_errors n f"
  by (simp_all add: field_errors_def)

lemma clean_field_inst [simp]: "inst (clean_field n put r h f) = inst f"
  by (simp add: clean_field_def Let_def split: sum.splits option.splits)

lemma clean_field_errors_other [simp]:
  "n' \<noteq> n \<Longrightarrow> field_errors n' (clean_field n put r h f) = field_errors n' f"
  by (simp add: clean_field_def Let_def split: sum.splits option.splits)

lemma clean_field_errors_None [simp]:
  "field_errors n (clean_field n put r None f) =
     field_errors n f @ (case r of Inl e \<Rightarrow> e | Inr v \<Rightarrow> [])"
  by (simp add: clean_field_def Let_def split: sum.splits option.splits)

lemma clean_field_errors_mono:
  "set (errors f) \<subseteq> set (errors (clean_field n put r h f))"
  by (auto simp: clean_field_def Let_def split: sum.splits option.splits)

lemma del_key_other:
  "n \<noteq> F_password1 \<Longrightarrow> cd_password1 (del_key n c) = cd_password1 c"
  "n \<noteq> F_password2 \<Longrightarrow> cd_password2 (del_key n c) = cd_password2 c"
  by (cases n; simp)+

lemma clean_field_frame_password1:
  "n \<noteq> F_password1 \<Longrightarrow> (\<And>v c. cd_password1 (put v c) = cd_password1 c) \<Longrightarrow>
   cd_password1 (cleaned_data (clean_field n put r h f)) = cd_password1 (cleaned_data f)"
  by (simp add: clean_field_def Let_def del_key_other split: sum.splits option.splits)

lemma clean_field_frame_password2:
  "n \<noteq> F_password2 \<Longrightarrow> (\<And>v c. cd_password2 (put v c) = cd_password2 c) \<Longrightarrow>
   cd_password2 (cleaned_data (clean_field n put r h f)) = cd_password2 (cleaned_data f)"
  by (simp add: clean_field_def Let_def del_key_other split: sum.splits option.splits)

lemma clean_field_value_password1:
  "cd_password1 (cleaned_data (clean_field F_password1 (\<lambda>v c. c\<lparr>cd_password1 := v\<rparr>) r None f)) = cleaned_of r"
  by (simp add: clean_field_def Let_def cleaned_of_def split: sum.splits)

lemma clean_field_value_password2:
  "cd_password2 (cleaned_data (clean_field F_password2 (\<lambda>v c. c\<lparr>cd_password2 := v\<rparr>) r None f)) = cleaned_of r"
  by (simp add: clean_field_def Let_def cleaned_of_def split: sum.splits)

lemma Crear_fields_password1:
  "cd_password1 (cleaned_data (UsuarioCrearForm_clean_fields dj d data f0)) =
     cleaned_of (CharField_clean True (Some 8) (data F_password1))"
  by (simp add: UsuarioCrearForm_clean_fields_def Let_def clean_field_frame_password1 clean_field_value_password1)

lemma Crear_fields_password2:
  "cd_password2 (cleaned_data (UsuarioCrearForm_clean_fields dj d data f0)) =
     cleaned_of (CharField_clean True None (data F_password2))"
  by (simp add: UsuarioCrearForm_clean_fields_def Let_def clean_field_frame_password2 clean_field_value_password2)

lemma Crear_fields_errors_password2:
  "field_errors F_password2 (UsuarioCrearForm_clean_fields dj d data f0) =
     field_errors F_password2 f0 @ (case CharField_clean True None (data F_password2) of Inl e \<Rightarrow> e | Inr v \<Rightarrow> [])"
  by (simp add: UsuarioCrearForm_clean_fields_def Let_def)

lemma Crear_fields_errors_password1:
  "field_errors F_password1 (UsuarioCrearForm_clean_fields dj d data f0) =
     field_errors F_password1 f0 @ (case CharField_clean True (Some 8) (data F_password1) of Inl e \<Rightarrow> e | Inr v \<Rightarrow> [])"
  by (simp add: UsuarioCrearForm_clean_fields_def Let_def)


lemma Editar_fields_password1:
  "cd_password1 (cleaned_data (UsuarioEditarForm_clean_fields dj d data f0)) =
     cleaned_of (CharField_clean False (Some 8) (data F_password1))"
  by (simp add: UsuarioEditarForm_clean_fields_def Let_def clean_field_frame_password1 clean_field_value_password1)

lemma Editar_fields_password2:
  "cd_password2 (cleaned_data (UsuarioEditarForm_clean_fields dj d data f0)) =
     cleaned_of (CharField_clean False None (data F_password2))"
  by (simp add: UsuarioEditarForm_clean_fields_def Let_def clean_field_frame_password2 clean_field_value_password2)

lemma Editar_fields_errors_password2:
  "field_errors F_password2 (UsuarioEditarForm_clean_fields dj d data f0) =
     field_errors F_password2 f0 @ (case CharField_clean False None (data F_password2) of Inl e \<Rightarrow> e | Inr v \<Rightarrow> [])"
  by (simp add: UsuarioEditarForm_clean_fields_def Let_def)

lemma Editar_fields_errors_password1:
  "field_errors F_password1 (UsuarioEditarForm_clean_fields dj d data f0) =
     field_errors F_password1 f0 @ (case CharField_clean False (Some 8) (data F_password1) of Inl e \<Rightarrow> e | Inr v \<Rightarrow> [])"
  by (simp add: UsuarioEditarForm_clean_fields_def Let_def)

lemma fold_add_error_other:
  "\<forall>x \<in> set xs. fst x \<noteq> n \<Longrightarrow>
   field_errors n (fold (\<lambda>(name, e). add_error name e) xs f) = field_errors n f"
  by (induction xs arbitrary: f) (auto simp: case_prod_beta)

lemma fold_add_error_mono:
  "set (errors f) \<subseteq> set (errors (fold (\<lambda>(name, e). add_error name e) xs f))"
proof (induction xs arbitrary: f)
  case Nil
  show ?case by simp
next
  case (Cons x xs)
  obtain n e where x: "x = (n, e)" by (cases x)
  have "set (errors f) \<subseteq> set (errors (add_error n e f))" by auto
  also have "\<dots> \<subseteq> set (errors (fold (\<lambda>(name, e). add_error name e) xs (add_error n e f)))"
    by (rule Cons.IH)
  finally show ?case by (simp add: x)
qed

lemma post_clean_errors_other:
  "n \<notin> set Meta_fields \<Longrightarrow> n \<noteq> NON_FIELD_ERRORS \<Longrightarrow>
   field_errors n (post_clean dj d f) = field_errors n f"
  unfolding post_clean_def Let_def
  by (subst fold_add_error_other) auto

lemma post_clean_errors_mono: "set (errors f) \<subseteq> set (errors (post_clean dj d f))"
  unfolding post_clean_def Let_def
  using fold_add_error_mono
    [of "f\<lparr>inst := User_clean dj (construct_instance (cleaned_data f) (inst f))\<rparr>"]
  by simp

lemma field_errors_empty [simp]:
  "field_errors n \<lparr>cleaned_data = c, errors = [], inst = u\<rparr> = []"
  by (simp add: field_errors_def)

lemma Crear_password2_errors:
  "field_errors F_password2 (UsuarioCrearForm_full_clean dj d data u) =
     (case CharField_clean True None (data F_password2) of Inl e \<Rightarrow> e | Inr v \<Rightarrow> []) @
     (if truthy (cleaned_of (CharField_clean True (Some 8) (data F_password1)))
         \<and> truthy (cleaned_of (CharField_clean True None (data F_password2)))
         \<and> cleaned_of (CharField_clean True (Some 8) (data F_password1))
            \<noteq> cleaned_of (CharField_clean True None (data F_password2))
      then [Msg no_coinciden] else [])"
  by (simp add: UsuarioCrearForm_full_clean_def post_clean_errors_other Meta_fields_def
      UsuarioCrearForm_clean_def Let_def Crear_fields_password1 Crear_fields_password2
      Crear_fields_errors_password2)

lemma Editar_password2_errors:
  "field_errors F_password2 (UsuarioEditarForm_full_clean dj d data u) =
     (case CharField_clean False None (data F_password2) of Inl e \<Rightarrow> e | Inr v \<Rightarrow> []) @
     (if truthy (cleaned_of (CharField_clean False (Some 8) (data F_password1)))
         \<or> truthy (cleaned_of (CharField_clean False None (data F_password2)))
      then (if \<not> truthy (cleaned_of (CharField_clean False (Some 8) (data F_password1)))
               \<or> \<not> truthy (cleaned_of (CharField_clean False None (data F_password2)))
            then [Msg completar_ambas]
            else if cleaned_of (CharField_clean False (Some 8) (data F_password1))
                    \<noteq> cleaned_of (CharField_clean False None (data F_password2))
            then [Msg no_coinciden] else [])
      else [])"
  by (simp add: UsuarioEditarForm_full_clean_def post_clean_errors_other Meta_fields_def
      UsuarioEditarForm_clean_def Let_def Editar_fields_password1 Editar_fields_password2
      Editar_fields_errors_password2)

lemma Crear_password1_errors:
  "field_errors F_password1 (UsuarioCrearForm_full_clean dj d data u) =
     (case CharField_clean True (Some 8) (data F_password1) of Inl e \<Rightarrow> e | Inr v \<Rightarrow> [])"
  by (simp add: UsuarioCrearForm_full_clean_def post_clean_errors_other Meta_fields_def
      UsuarioCrearForm_clean_def Let_def Crear_fields_errors_password1)

lemma Editar_password1_errors:
  "field_errors F_password1 (UsuarioEditarForm_full_clean dj d data u) =
     (case CharField_clean False (Some 8) (data F_password1) of Inl e \<Rightarrow> e | Inr v \<Rightarrow> [])"
  by (simp add: UsuarioEditarForm_full_clean_def post_clean_errors_other Meta_fields_def
      UsuarioEditarForm_clean_def Let_def Editar_fields_errors_password1)

lemma field_errors_invalid: "field_errors n f \<noteq> [] \<Longrightarrow> \<not> is_valid f"
  by (auto simp: field_errors_def is_valid_def)

lemma CharField_accepts:
  "raw = Some s \<Longrightarrow> strip s \<noteq> [] \<Longrightarrow> 0 \<notin> set (strip s) \<Longrightarrow>
   (case m of None \<Rightarrow> True | Some k \<Rightarrow> k \<le> length (strip s)) \<Longrightarrow>
   CharField_clean req m raw = Inr (strip s)"
  by (auto simp: CharField_clean_def Let_def split: option.splits)

lemma CharField_blank:
  "blank raw \<Longrightarrow> CharField_clean req m raw = (if req then Inl [Required] else Inr [])"
  by (auto simp: CharField_clean_def blank_def Let_def split: option.splits)

lemma clean_field_errors_hook:
  "field_errors n (clean_field n put r (Some h) f) =
     field_errors n f @
     (case r of
        Inl e \<Rightarrow> e
      | Inr v \<Rightarrow> (case h (f\<lparr>cleaned_data := put (Some v) (cleaned_data f)\<rparr>) of
                   Inl e \<Rightarrow> e | Inr v' \<Rightarrow> []))"
  by (simp add: clean_field_def Let_def split: sum.splits)

lemma Crear_clean_email_unfold:
  "UsuarioCrearForm_clean_email dj d f =
     (let em = strip (case cd_email (cleaned_data f) of None \<Rightarrow> [] | Some e \<Rightarrow> e) in
      if em = [] then Inl [Msg correo_obligatorio]
      else if \<exists>u \<in> set (auth_user d). iexact dj (email u) em
      then Inl [Msg correo_duplicado] else Inr em)"
  by (auto simp: UsuarioCrearForm_clean_email_def validar_email_unico_ci_def Let_def
      filter_empty_conv)

lemma Editar_clean_email_unfold:
  "UsuarioEditarForm_clean_email dj d f =
     (let em = strip (case cd_email (cleaned_data f) of None \<Rightarrow> [] | Some e \<Rightarrow> e) in
      if em = [] then Inl [Msg correo_obligatorio]
      else if \<exists>u \<in> set (auth_user d). pk u \<noteq> pk (inst f) \<and> iexact dj (email u) em
      then Inl [Msg correo_duplicado] else Inr em)"
  by (auto simp: UsuarioEditarForm_clean_email_def Let_def filter_empty_conv)

lemma fold_add_error_prefix:
  "\<exists>es. field_errors n (fold (\<lambda>(name, e). add_error name e) xs f) = field_errors n f @ es"
proof (induction xs arbitrary: f)
  case Nil
  show ?case by simp
next
  case (Cons x xs)
  obtain m e where x: "x = (m, e)" by (cases x)
  from Cons.IH [of "add_error m e f"] obtain es where
    "field_errors n (fold (\<lambda>(name, e). add_error name e) xs (add_error m e f)) =
       field_errors n (add_error m e f) @ es" by blast
  then show ?case by (simp add: x)
qed

lemma post_clean_errors_prefix:
  "\<exists>es. field_errors n (post_clean dj d f) = field_errors n f @ es"
  unfolding post_clean_def Let_def
  using fold_add_error_prefix
    [of n _ "f\<lparr>inst := User_clean dj (construct_instance (cleaned_data f) (inst f))\<rparr>"]
  by simp

lemma Crear_clean_errors_other:
  "n \<noteq> F_password2 \<Longrightarrow> field_errors n (UsuarioCrearForm_clean f) = field_errors n f"
  by (simp add: UsuarioCrearForm_clean_def Let_def)

lemma Editar_clean_errors_other:
  "n \<noteq> F_password2 \<Longrightarrow> field_errors n (UsuarioEditarForm_clean f) = field_errors n f"
  by (simp add: UsuarioEditarForm_clean_def Let_def)

lemma Crear_email_errors:
  "\<exists>es. field_errors F_email (UsuarioCrearForm_full_clean dj d data u) =
     (case text_field_clean dj F_email (data F_email) of
        Inl e \<Rightarrow> e
      | Inr v \<Rightarrow>
          (case UsuarioCrearForm_clean_email dj d
                  \<lparr>cleaned_data = empty_cleaned_data\<lparr>cd_email := Some v\<rparr>, errors = [], inst = u\<rparr> of
             Inl e \<Rightarrow> e | Inr v' \<Rightarrow> [])) @ es"
proof -
  have "field_errors F_email (UsuarioCrearForm_clean (UsuarioCrearForm_clean_fields dj d data
          \<lparr>cleaned_data = empty_cleaned_data, errors = [], inst = u\<rparr>)) =
     (case text_field_clean dj F_email (data F_email) of
        Inl e \<Rightarrow> e
      | Inr v \<Rightarrow>
          (case UsuarioCrearForm_clean_email dj d
                  \<lparr>cleaned_data = empty_cleaned_data\<lparr>cd_email := Some v\<rparr>, errors = [], inst = u\<rparr> of
             Inl e \<Rightarrow> e | Inr v' \<Rightarrow> []))"
    by (cases "text_field_clean dj F_email (data F_email)")
      (simp_all add: Crear_clean_errors_other UsuarioCrearForm_clean_fields_def Let_def
        clean_field_errors_hook Crear_clean_email_unfold)
  then show ?thesis
    using post_clean_errors_prefix [of F_email dj d "UsuarioCrearForm_clean
      (UsuarioCrearForm_clean_fields dj d data
         \<lparr>cleaned_data = empty_cleaned_data, errors = [], inst = u\<rparr>)"]
    by (auto simp: UsuarioCrearForm_full_clean_def)
qed

lemma Editar_email_errors:
  "\<exists>es. field_errors F_email (UsuarioEditarForm_full_clean dj d data u) =
     (case text_field_clean dj F_email (data F_email) of
        Inl e \<Rightarrow> e
      | Inr v \<Rightarrow>
          (case UsuarioEditarForm_clean_email dj d
                  \<lparr>cleaned_data = empty_cleaned_data\<lparr>cd_email := Some v\<rparr>, errors = [], inst = u\<rparr> of
             Inl e \<Rightarrow> e | Inr v' \<Rightarrow> [])) @ es"
proof -
  have "field_errors F_email (UsuarioEditarForm_clean (UsuarioEditarForm_clean_fields dj d data
          \<lparr>cleaned_data = empty_cleaned_data, errors = [], inst = u\<rparr>)) =
     (case text_field_clean dj F_email (data F_email) of
        Inl e \<Rightarrow> e
      | Inr v \<Rightarrow>
          (case UsuarioEditarForm_clean_email dj d
                  \<lparr>cleaned_data = empty_cleaned_data\<lparr>cd_email := Some v\<rparr>, errors = [], inst = u\<rparr> of
             Inl e \<Rightarrow> e | Inr v' \<Rightarrow> []))"
    by (cases "text_field_clean dj F_email (data F_email)")
      (simp_all add: Editar_clean_errors_other UsuarioEditarForm_clean_fields_def Let_def
        clean_field_errors_hook Editar_clean_email_unfold)
  then show ?thesis
    using post_clean_errors_prefix [of F_email dj d "UsuarioEditarForm_clean
      (UsuarioEditarForm_clean_fields dj d data
         \<lparr>cleaned_data = empty_cleaned_data, errors = [], inst = u\<rparr>)"]
    by (auto simp: UsuarioEditarForm_full_clean_def)
qed


subsection \<open>The tables after \<^verbatim>\<open>save\<close>\<close>

lemma fold_max_ge: "(a::nat) \<le> fold max xs a"
proof (induction xs arbitrary: a)
  case Nil
  show ?case by simp
next
  case (Cons x xs)
  have "a \<le> max x a" by simp
  also have "\<dots> \<le> fold max xs (max x a)" by (rule Cons.IH)
  finally show ?case by simp
qed

lemma fold_max_mem: "x \<in> set xs \<Longrightarrow> (x::nat) \<le> fold max xs a"
proof (induction xs arbitrary: a)
  case Nil
  then show ?case by simp
next
  case (Cons y ys)
  show ?case
  proof (cases "x = y")
    case True
    have "x \<le> max y a" using True by simp
    also have "\<dots> \<le> fold max ys (max y a)" by (rule fold_max_ge)
    finally show ?thesis by simp
  next
    case False
    with Cons.prems have "x \<in> set ys" by simp
    then show ?thesis using Cons.IH by simp
  qed
qed

lemma next_id_fresh: "next_id ids \<notin> set ids"
proof
  assume "next_id ids \<in> set ids"
  then have "next_id ids \<le> fold max ids 0" by (rule fold_max_mem)
  then show False by (simp add: next_id_def)
qed

lemma Model_save_result:
  "\<exists>k. Model_save u d =
     (u\<lparr>pk := Some k\<rparr>,
      d\<lparr>auth_user := (if Some k \<in> set (map pk (auth_user d)) \<and> pk u \<noteq> None
                      then map (\<lambda>r. if pk r = Some k then u else r) (auth_user d)
                      else auth_user d @ [u\<lparr>pk := Some k\<rparr>])\<rparr>)
     \<and> (pk u = None \<or> pk u = Some k)"
  by (cases "pk u") (auto simp: Model_save_def Let_def)

lemma Model_save_stored:
  "Model_save u d = (u', d') \<Longrightarrow> u' \<in> set (auth_user d')"
  by (cases "pk u") (auto simp: Model_save_def Let_def split: if_splits)

lemma get_or_create_result:
  assumes "length (filter (\<lambda>g. group_name g = r) (auth_group d)) \<le> 1"
  shows "\<exists>g c. get_or_create r d =
           Inr ((g, c), d\<lparr>auth_group := (if c then auth_group d @ [g] else auth_group d)\<rparr>)
         \<and> group_name g = r
         \<and> c = (filter (\<lambda>g. group_name g = r) (auth_group d) = [])
         \<and> (c \<longrightarrow> group_id g \<notin> set (map group_id (auth_group d)))
         \<and> filter (\<lambda>g. group_name g = r)
              (if c then auth_group d @ [g] else auth_group d) = [g]"
proof (cases "filter (\<lambda>g. group_name g = r) (auth_group d)")
  case Nil
  then show ?thesis
    using next_id_fresh [of "map group_id (auth_group d)"]
    by (auto simp: get_or_create_def Let_def)
next
  case (Cons g gs)
  with assms have gs: "gs = []" by simp
  have "group_name g = r"
    using Cons filter_eq_ConsD [of "\<lambda>g. group_name g = r" "auth_group d" g gs] by auto
  then show ?thesis
    using Cons gs by (auto simp: get_or_create_def)
qed

lemma filter_by_distinct_id:
  "distinct (map group_id gs) \<Longrightarrow> g \<in> set gs \<Longrightarrow>
   filter (\<lambda>x. group_id x = group_id g) gs = [g]"
proof (induction gs)
  case Nil
  then show ?case by simp
next
  case (Cons y ys)
  show ?case
  proof (cases "y = g")
    case True
    have "filter (\<lambda>x. group_id x = group_id g) ys = []"
      using Cons.prems(1) True by (auto simp: filter_empty_conv intro: rev_image_eqI)
    then show ?thesis using True by simp
  next
    case False
    with Cons.prems have "g \<in> set ys" "group_id y \<noteq> group_id g" by auto
    then show ?thesis using Cons by simp
  qed
qed


lemma Crear_save_commit:
  "UsuarioCrearForm_save dj True f d =
     (if errors f \<noteq> [] then Inl ValueError
      else case cd_password1 (cleaned_data f) of
             None \<Rightarrow> Inl (KeyError F_password1)
           | Some p1 \<Rightarrow> commit_steps f (set_password dj p1 (inst f)) d)"
  by (simp add: UsuarioCrearForm_save_def ModelForm_save_def commit_steps_def Let_def
      split: option.splits)

lemma Editar_save_commit:
  "UsuarioEditarForm_save dj True f d =
     (if errors f \<noteq> [] then Inl ValueError
      else commit_steps f
             (case cd_password1 (cleaned_data f) of
                None \<Rightarrow> inst f
              | Some p1 \<Rightarrow> if p1 \<noteq> [] then set_password dj p1 (inst f) else inst f) d)"
  by (simp add: UsuarioEditarForm_save_def ModelForm_save_def commit_steps_def Let_def)

lemma commit_steps_result:
  assumes "cd_rol (cleaned_data f) = Some r"
    and "length (filter (\<lambda>g. group_name g = r) (auth_group d)) \<le> 1"
  shows "\<exists>k g d'. commit_steps f u1 d = Inr (u1\<lparr>pk := Some k\<rparr>, d')
      \<and> (pk u1 = None \<or> pk u1 = Some k)
      \<and> u1\<lparr>pk := Some k\<rparr> \<in> set (auth_user d')
      \<and> group_ids_of d' k = [group_id g]
      \<and> filter (\<lambda>g. group_name g = r) (auth_group d') = [g]
      \<and> auth_group d' =
          (if filter (\<lambda>g. group_name g = r) (auth_group d) = [] then auth_group d @ [g]
           else auth_group d)
      \<and> (distinct (map group_id (auth_group d)) \<longrightarrow> group_names_of d' k = [r])"
proof -
  obtain k where ms: "Model_save u1 d =
     (u1\<lparr>pk := Some k\<rparr>,
      d\<lparr>auth_user := (if Some k \<in> set (map pk (auth_user d)) \<and> pk u1 \<noteq> None
                      then map (\<lambda>r. if pk r = Some k then u1 else r) (auth_user d)
                      else auth_user d @ [u1\<lparr>pk := Some k\<rparr>])\<rparr>)"
    and pk: "pk u1 = None \<or> pk u1 = Some k"
    using Model_save_result [of u1 d] by blast
  define d1 where "d1 = snd (Model_save u1 d)"
  define d2 where "d2 = groups_clear k d1"
  have g1: "auth_group d1 = auth_group d" by (simp add: d1_def ms)
  have g2: "auth_group d2 = auth_group d" by (simp add: d2_def groups_clear_def g1)
  have stored: "u1\<lparr>pk := Some k\<rparr> \<in> set (auth_user d1)"
    using Model_save_stored [of u1 d "u1\<lparr>pk := Some k\<rparr>" d1] ms by (simp add: d1_def)
  have le: "length (filter (\<lambda>g. group_name g = r) (auth_group d2)) \<le> 1"
    using assms(2) g2 by simp
  from get_or_create_result [OF le]
  obtain g c where goc0: "get_or_create r d2 =
           Inr ((g, c), d2\<lparr>auth_group := (if c then auth_group d2 @ [g] else auth_group d2)\<rparr>)"
    and gn: "group_name g = r"
    and c0: "c = (filter (\<lambda>g. group_name g = r) (auth_group d2) = [])"
    and fresh0: "c \<longrightarrow> group_id g \<notin> set (map group_id (auth_group d2))"
    and one0: "filter (\<lambda>g. group_name g = r)
              (if c then auth_group d2 @ [g] else auth_group d2) = [g]"
    by blast
  have goc: "get_or_create r d2 =
           Inr ((g, c), d2\<lparr>auth_group := (if c then auth_group d @ [g] else auth_group d)\<rparr>)"
    using goc0 unfolding g2 .
  have c: "c = (filter (\<lambda>g. group_name g = r) (auth_group d) = [])"
    using c0 unfolding g2 .
  have fresh: "c \<longrightarrow> group_id g \<notin> set (map group_id (auth_group d))"
    using fresh0 unfolding g2 .
  have one: "filter (\<lambda>g. group_name g = r)
              (if c then auth_group d @ [g] else auth_group d) = [g]"
    using one0 unfolding g2 .
  define d' where "d' = groups_add k g (d2\<lparr>auth_group := (if c then auth_group d @ [g] else auth_group d)\<rparr>)"
  have res: "commit_steps f u1 d = Inr (u1\<lparr>pk := Some k\<rparr>, d')"
    using assms(1) goc ms by (simp add: commit_steps_def d'_def d2_def d1_def)
  have ag: "auth_group d' = (if c then auth_group d @ [g] else auth_group d)"
    by (simp add: d'_def groups_add_def)
  have au: "auth_user d' = auth_user d1"
    by (simp add: d'_def groups_add_def d2_def groups_clear_def)
  have ids: "group_ids_of d' k = [group_id g]"
    by (auto simp: d'_def d2_def groups_clear_def groups_add_def group_ids_of_def
        filter_empty_conv)
  have gmem: "g \<in> set (auth_group d')"
    using one ag filter_eq_ConsD [of "\<lambda>g. group_name g = r" "auth_group d'" g "[]"] by auto
  have names: "group_names_of d' k = [r]" if dist: "distinct (map group_id (auth_group d))"
  proof -
    have "distinct (map group_id (auth_group d'))"
      using dist fresh by (auto simp: ag)
    then have "filter (\<lambda>x. group_id x = group_id g) (auth_group d') = [g]"
      using gmem by (rule filter_by_distinct_id)
    then show ?thesis by (simp add: group_names_of_def ids gn)
  qed
  show ?thesis
    using res pk stored ids one ag c names au by auto
qed

subsection \<open>Valid forms\<close>

lemma fold_add_error_inst [simp]:
  "inst (fold (\<lambda>(name, e). add_error name e) xs f) = inst f"
  by (induction xs arbitrary: f) (auto simp: case_prod_beta)

lemma post_clean_inst:
  "inst (post_clean dj d f) = User_clean dj (construct_instance (cleaned_data f) (inst f))"
  by (simp add: post_clean_def Let_def)

lemma Editar_clean_inst [simp]: "inst (UsuarioEditarForm_clean f) = inst f"
  by (simp add: UsuarioEditarForm_clean_def Let_def)

lemma Crear_clean_inst [simp]: "inst (UsuarioCrearForm_clean f) = inst f"
  by (simp add: UsuarioCrearForm_clean_def Let_def)

lemma Editar_fields_inst [simp]: "inst (UsuarioEditarForm_clean_fields dj d data f) = inst f"
  by (simp add: UsuarioEditarForm_clean_fields_def Let_def)

lemma Crear_fields_inst [simp]: "inst (UsuarioCrearForm_clean_fields dj d data f) = inst f"
  by (simp add: UsuarioCrearForm_clean_fields_def Let_def)

lemma construct_instance_password [simp]:
  "password (construct_instance c u) = password u" "pk (construct_instance c u) = pk u"
  by (simp_all add: construct_instance_def)

lemma User_clean_password [simp]:
  "password (User_clean dj u) = password u" "pk (User_clean dj u) = pk u"
  by (simp_all add: User_clean_def)




lemma Crear_clean_cases:
  "UsuarioCrearForm_clean f = f \<or> (\<exists>m. UsuarioCrearForm_clean f = add_error F_password2 m f)"
proof (cases "UsuarioCrearForm_clean f = f")
  case True
  then show ?thesis by simp
next
  case False
  then have "UsuarioCrearForm_clean f = add_error F_password2 [Msg no_coinciden] f"
    unfolding UsuarioCrearForm_clean_def Let_def by metis
  then show ?thesis by blast
qed


lemma Crear_clean_valid:
  assumes "is_valid (UsuarioCrearForm_clean f)"
  shows "UsuarioCrearForm_clean f = f"
proof (rule ccontr)
  assume "UsuarioCrearForm_clean f \<noteq> f"
  with Crear_clean_cases [of f] obtain m where
    "UsuarioCrearForm_clean f = add_error F_password2 m f" by blast
  then have "errors (UsuarioCrearForm_clean f) \<noteq> []" by simp
  with assms show False by (simp add: is_valid_def)
qed





subsection \<open>The sample submissions, cleaned\<close>

lemmas sample_defs = sample_django_def sample_db_def ana_def luis_def nuevo_def alta_def edicion_def
  str_def strip_def isspace_def ascii_lower_def
lemmas form_defs = clean_field_def add_error_def Let_def CharField_clean_def rol_clean_def
  ChoiceField_clean_def ROL_CHOICES_def post_clean_def construct_instance_def
  User_clean_def normalize_email_def
  empty_cleaned_data_def truthy_def Meta_fields_def



lemma sample_alta:
  "UsuarioCrearForm_full_clean sample_django sample_db alta nuevo =
     \<lparr>cleaned_data =
        \<lparr>cd_username = Some (str ''eva''), cd_first_name = Some (str ''Eva''),
         cd_last_name = Some (str ''Soto''), cd_email = Some (str ''eva@muni.cl''),
         cd_is_active = Some True, cd_is_staff = Some False,
         cd_password1 = Some (str ''clave1234''), cd_password2 = Some (str ''clave1234''),
         cd_rol = Some (str ''Administrador'')\<rparr>,
      errors = [],
      inst = nuevo\<lparr>username := str ''eva'', first_name := str ''Eva'', last_name := str ''Soto'',
               email := str ''eva@muni.cl''\<rparr>\<rparr>"
  by (simp add: UsuarioCrearForm_full_clean_def UsuarioCrearForm_clean_fields_def
      UsuarioCrearForm_clean_def UsuarioCrearForm_clean_email_def validar_email_unico_ci_def
      sample_defs form_defs)

lemma sample_edicion_territorial:
  "UsuarioEditarForm_full_clean sample_django sample_db (edicion(F_rol \<mapsto> str ''Territorial'')) ana =
     \<lparr>cleaned_data =
        \<lparr>cd_username = Some (str ''ana''), cd_first_name = Some (str ''Ana''),
         cd_last_name = Some (str ''Rojas''), cd_email = Some (str ''ANA@MUNI.CL''),
         cd_is_active = Some True, cd_is_staff = Some False,
         cd_password1 = Some [], cd_password2 = Some [],
         cd_rol = Some (str ''Territorial'')\<rparr>,
      errors = [],
      inst = ana\<lparr>email := str ''ANA@muni.cl''\<rparr>\<rparr>"
  by (simp add: UsuarioEditarForm_full_clean_def UsuarioEditarForm_clean_fields_def
      UsuarioEditarForm_clean_def UsuarioEditarForm_clean_email_def sample_defs form_defs)

subsection \<open>The claims\<close>

text \<open>
  C7. In both forms the field \<open>rol\<close> validates exactly when the submitted value is one of
  the five role names Administrador, Direccion (its second o accented, code point 243),
  Departamento, Jefe de Cuadrilla and Territorial, and the cleaned value is then the
  submitted one; every other value, the empty value and a missing value give a
  validation error.
\<close>

theorem rol_valid_iff_role_name:
  "((rol_clean raw = Inr v) =
      (raw = Some v \<and> v \<in> {str ''Administrador'', str ''Direcci'' @ [243] @ str ''n'',
         str ''Departamento'', str ''Jefe de Cuadrilla'', str ''Territorial''}))
   \<and> ((\<exists>e. rol_clean raw = Inl e) =
      (raw \<notin> Some ` {str ''Administrador'', str ''Direcci'' @ [243] @ str ''n'',
         str ''Departamento'', str ''Jefe de Cuadrilla'', str ''Territorial''}))
   \<and> rol_clean None = Inl [Required] \<and> rol_clean (Some []) = Inl [Required]"
proof (cases raw)
  case None
  then show ?thesis
    by (simp add: rol_clean_def ChoiceField_clean_def)
next
  case (Some s)
  then show ?thesis
    by (auto simp: rol_clean_def ChoiceField_clean_def ROL_CHOICES_def str_def)
qed

text \<open>
  C3, as amended. In both forms, when the two submitted passwords pass the validation of
  their own fields (after stripping, \<open>password1\<close> has at least 8 characters, \<open>password2\<close>
  is not empty, neither holds a NUL character) and differ after stripping, the form is
  invalid and the error on \<open>password2\<close> is the message that the passwords do not match;
  when they are equal after stripping, \<open>password2\<close> gets no error.
\<close>

theorem password_mismatch_on_password2:
  assumes "data F_password1 = Some s1" and "data F_password2 = Some s2"
    and "8 \<le> length (strip s1)" and "0 \<notin> set (strip s1)"
    and "strip s2 \<noteq> []" and "0 \<notin> set (strip s2)"
  shows "field_errors F_password2 (UsuarioCrearForm_full_clean dj d data u) =
           (if strip s1 \<noteq> strip s2 then [Msg no_coinciden] else [])
       \<and> field_errors F_password2 (UsuarioEditarForm_full_clean dj d data u) =
           (if strip s1 \<noteq> strip s2 then [Msg no_coinciden] else [])
       \<and> (strip s1 \<noteq> strip s2 \<longrightarrow>
            \<not> is_valid (UsuarioCrearForm_full_clean dj d data u)
            \<and> \<not> is_valid (UsuarioEditarForm_full_clean dj d data u))
       \<and> no_coinciden = str ''Las contrase'' @ [241] @ str ''as no coinciden.''"
proof -
  have ne: "strip s1 \<noteq> []" using assms(3) by auto
  have a1: "CharField_clean req (Some 8) (data F_password1) = Inr (strip s1)" for req
    using assms ne by (simp add: CharField_accepts)
  have a2: "CharField_clean req None (data F_password2) = Inr (strip s2)" for req
    using assms by (simp add: CharField_accepts)
  have c: "field_errors F_password2 (UsuarioCrearForm_full_clean dj d data u) =
           (if strip s1 \<noteq> strip s2 then [Msg no_coinciden] else [])"
    using ne assms(5) by (simp add: Crear_password2_errors a1 a2 cleaned_of_def truthy_def)
  have e: "field_errors F_password2 (UsuarioEditarForm_full_clean dj d data u) =
           (if strip s1 \<noteq> strip s2 then [Msg no_coinciden] else [])"
    using ne assms(5) by (simp add: Editar_password2_errors a1 a2 cleaned_of_def truthy_def)
  have v: "strip s1 \<noteq> strip s2 \<longrightarrow>
            \<not> is_valid (UsuarioCrearForm_full_clean dj d data u)
            \<and> \<not> is_valid (UsuarioEditarForm_full_clean dj d data u)"
    using c e by (auto intro!: field_errors_invalid [where n = F_password2])
  show ?thesis using c e v by (simp add: no_coinciden_def)
qed

text \<open>The theorem on eva's submission, with a different and with the same confirmation.\<close>

theorem password_mismatch_on_password2_witness:
  "field_errors F_password2
     (UsuarioCrearForm_full_clean sample_django sample_db (alta(F_password2 \<mapsto> str ''clave9999'')) nuevo)
     = [Msg no_coinciden]
   \<and> field_errors F_password2
     (UsuarioEditarForm_full_clean sample_django sample_db (alta(F_password2 \<mapsto> str ''clave9999'')) ana)
     = [Msg no_coinciden]
   \<and> field_errors F_password2 (UsuarioCrearForm_full_clean sample_django sample_db alta nuevo) = []"
  using password_mismatch_on_password2 [of "alta(F_password2 \<mapsto> str ''clave9999'')"
      "str ''clave1234''" "str ''clave9999''" sample_django sample_db nuevo]
    password_mismatch_on_password2 [of "alta(F_password2 \<mapsto> str ''clave9999'')"
      "str ''clave1234''" "str ''clave9999''" sample_django sample_db ana]
    password_mismatch_on_password2 [of alta "str ''clave1234''" "str ''clave1234''"
      sample_django sample_db nuevo]
  by (simp add: alta_def str_def strip_def isspace_def)

text \<open>
  C3 as stated fails: the passwords \<^verbatim>\<open>abc\<close> and \<^verbatim>\<open>xyz\<close> are not empty and differ, but
  \<open>password1\<close> is shorter than 8 characters, its field refuses it, \<^verbatim>\<open>clean\<close> finds no
  \<open>password1\<close> in the cleaned data and attaches nothing to \<open>password2\<close>.
\<close>

theorem password_mismatch_counterexample:
  "field_errors F_password2
     (UsuarioCrearForm_full_clean sample_django sample_db
        (alta(F_password1 \<mapsto> str ''abc'', F_password2 \<mapsto> str ''xyz'')) nuevo) = []
   \<and> str ''abc'' \<noteq> [] \<and> str ''xyz'' \<noteq> [] \<and> str ''abc'' \<noteq> str ''xyz''"
  by (simp add: Crear_password2_errors alta_def str_def strip_def isspace_def CharField_clean_def
      cleaned_of_def truthy_def)

text \<open>
  C4, as amended. In \<^verbatim>\<open>UsuarioEditarForm\<close>, when \<open>password1\<close> is left empty and \<open>password2\<close>
  is given, or when \<open>password2\<close> is left empty and \<open>password1\<close> is given and passes the
  validation of its own field (at least 8 characters after stripping, no NUL character),
  the form is invalid with an error on \<open>password2\<close>; when both are left empty, neither
  password field gets an error.
\<close>

theorem incomplete_password_pair:
  "(blank (data F_password1) \<and> data F_password2 = Some s2 \<and> strip s2 \<noteq> [] \<longrightarrow>
      field_errors F_password2 (UsuarioEditarForm_full_clean dj d data u) =
        (if 0 \<in> set (strip s2) then [NullCharacters] else [Msg completar_ambas])
      \<and> \<not> is_valid (UsuarioEditarForm_full_clean dj d data u))
   \<and> (data F_password1 = Some s1 \<and> 8 \<le> length (strip s1) \<and> 0 \<notin> set (strip s1)
        \<and> blank (data F_password2) \<longrightarrow>
      field_errors F_password2 (UsuarioEditarForm_full_clean dj d data u) = [Msg completar_ambas]
      \<and> \<not> is_valid (UsuarioEditarForm_full_clean dj d data u))
   \<and> (blank (data F_password1) \<and> blank (data F_password2) \<longrightarrow>
      field_errors F_password1 (UsuarioEditarForm_full_clean dj d data u) = []
      \<and> field_errors F_password2 (UsuarioEditarForm_full_clean dj d data u) = [])"
proof (intro conjI impI)
  assume h: "blank (data F_password1) \<and> data F_password2 = Some s2 \<and> strip s2 \<noteq> []"
  then have p1: "CharField_clean False (Some 8) (data F_password1) = Inr []"
    by (simp add: CharField_blank)
  have p2: "CharField_clean False None (data F_password2) =
        (if 0 \<in> set (strip s2) then Inl [NullCharacters] else Inr (strip s2))"
    using h by (simp add: CharField_clean_def)
  have n2: "strip s2 \<noteq> []" using h by simp
  show e: "field_errors F_password2 (UsuarioEditarForm_full_clean dj d data u) =
        (if 0 \<in> set (strip s2) then [NullCharacters] else [Msg completar_ambas])"
    using n2 by (simp add: Editar_password2_errors p1 p2 cleaned_of_def truthy_def)
  show "\<not> is_valid (UsuarioEditarForm_full_clean dj d data u)"
    by (rule field_errors_invalid [where n = F_password2]) (simp add: e)
next
  assume h: "data F_password1 = Some s1 \<and> 8 \<le> length (strip s1) \<and> 0 \<notin> set (strip s1)
        \<and> blank (data F_password2)"
  then have ne: "strip s1 \<noteq> []" by auto
  have p1: "CharField_clean False (Some 8) (data F_password1) = Inr (strip s1)"
    using h ne by (simp add: CharField_accepts)
  have p2: "CharField_clean False None (data F_password2) = Inr []"
    using h by (simp add: CharField_blank)
  show e: "field_errors F_password2 (UsuarioEditarForm_full_clean dj d data u) = [Msg completar_ambas]"
    using ne by (simp add: Editar_password2_errors p1 p2 cleaned_of_def truthy_def)
  show "\<not> is_valid (UsuarioEditarForm_full_clean dj d data u)"
    by (rule field_errors_invalid [where n = F_password2]) (simp add: e)
next
  assume h: "blank (data F_password1) \<and> blank (data F_password2)"
  then have p1: "CharField_clean False (Some 8) (data F_password1) = Inr []"
    and p2: "CharField_clean False None (data F_password2) = Inr []"
    by (simp_all add: CharField_blank)
  show "field_errors F_password1 (UsuarioEditarForm_full_clean dj d data u) = []"
    by (simp add: Editar_password1_errors p1)
  show "field_errors F_password2 (UsuarioEditarForm_full_clean dj d data u) = []"
    by (simp add: Editar_password2_errors p1 p2 cleaned_of_def truthy_def)
qed

text \<open>The theorem on the edit of ana, with only the confirmation, only the password, and neither.\<close>

theorem incomplete_password_pair_witness:
  "field_errors F_password2
     (UsuarioEditarForm_full_clean sample_django sample_db (edicion(F_password2 \<mapsto> str ''clave1234'')) ana)
     = [Msg completar_ambas]
   \<and> field_errors F_password2
     (UsuarioEditarForm_full_clean sample_django sample_db (edicion(F_password1 \<mapsto> str ''clave1234'')) ana)
     = [Msg completar_ambas]
   \<and> \<not> is_valid
     (UsuarioEditarForm_full_clean sample_django sample_db (edicion(F_password1 \<mapsto> str ''clave1234'')) ana)
   \<and> field_errors F_password1 (UsuarioEditarForm_full_clean sample_django sample_db edicion ana) = []
   \<and> field_errors F_password2 (UsuarioEditarForm_full_clean sample_django sample_db edicion ana) = []"
  using incomplete_password_pair [of "edicion(F_password2 \<mapsto> str ''clave1234'')"
      "str ''clave1234''" sample_django sample_db ana "[]"]
    incomplete_password_pair [of "edicion(F_password1 \<mapsto> str ''clave1234'')"
      "[]" sample_django sample_db ana "str ''clave1234''"]
    incomplete_password_pair [of edicion "[]" sample_django sample_db ana "[]"]
  by (simp add: edicion_def blank_def str_def strip_def isspace_def)

text \<open>
  C4 as stated fails: with \<open>password1\<close> = \<^verbatim>\<open>abc\<close> and \<open>password2\<close> empty, exactly one of the
  two is given, but the field refuses the short \<open>password1\<close>, so \<^verbatim>\<open>clean\<close> sees neither
  password; the only error is the one on \<open>password1\<close>, and \<open>password2\<close> has none.
\<close>

theorem incomplete_password_pair_counterexample:
  "\<not> blank ((edicion(F_password1 \<mapsto> str ''abc'')) F_password1)
   \<and> blank ((edicion(F_password1 \<mapsto> str ''abc'')) F_password2)
   \<and> field_errors F_password2
       (UsuarioEditarForm_full_clean sample_django sample_db (edicion(F_password1 \<mapsto> str ''abc'')) ana) = []
   \<and> field_errors F_password1
       (UsuarioEditarForm_full_clean sample_django sample_db (edicion(F_password1 \<mapsto> str ''abc'')) ana)
       = [MinLength 8 3]"
  by (simp add: Editar_password2_errors Editar_password1_errors edicion_def blank_def str_def
      strip_def isspace_def CharField_clean_def cleaned_of_def truthy_def)

text \<open>
  C10. \<^verbatim>\<open>next_state_label\<close> gives \<^verbatim>\<open>Desactivar\<close> for an active user and \<^verbatim>\<open>Activar\<close>
  otherwise, and leaves the user and the database as they were.
\<close>

theorem next_state_label_by_is_active:
  "fst (next_state_label u d) = (if is_active u then str ''Desactivar'' else str ''Activar'')
   \<and> snd (next_state_label u d) = (u, d)"
  by (simp add: next_state_label_def)

text \<open>
  C2, as amended. In \<^verbatim>\<open>UsuarioCrearForm\<close>, for an email that is not empty after stripping,
  \<^verbatim>\<open>clean_email\<close> fails, with the message that a user with this email exists, exactly when
  the stored email of some user equals the stripped email under the case-insensitive
  comparison, and otherwise accepts the stripped email; when it fails, the message is
  attached to the field \<open>email\<close> of the form, which is then invalid.
\<close>

theorem crear_email_unique_ci:
  assumes "strip e \<noteq> []"
  shows "(cd_email (cleaned_data f) = Some e \<longrightarrow>
            UsuarioCrearForm_clean_email dj d f =
              (if \<exists>u \<in> set (auth_user d). iexact dj (email u) (strip e)
               then Inl [Msg correo_duplicado] else Inr (strip e)))
       \<and> (text_field_clean dj F_email (data F_email) = Inr e
            \<and> (\<exists>u \<in> set (auth_user d). iexact dj (email u) (strip e)) \<longrightarrow>
            Msg correo_duplicado \<in> set (field_errors F_email (UsuarioCrearForm_full_clean dj d data u0))
            \<and> \<not> is_valid (UsuarioCrearForm_full_clean dj d data u0))"
proof (intro conjI impI)
  assume "cd_email (cleaned_data f) = Some e"
  then show "UsuarioCrearForm_clean_email dj d f =
              (if \<exists>u \<in> set (auth_user d). iexact dj (email u) (strip e)
               then Inl [Msg correo_duplicado] else Inr (strip e))"
    using assms by (simp add: Crear_clean_email_unfold)
next
  assume h: "text_field_clean dj F_email (data F_email) = Inr e
            \<and> (\<exists>u \<in> set (auth_user d). iexact dj (email u) (strip e))"
  from Crear_email_errors [of dj d data u0] obtain es where
    "field_errors F_email (UsuarioCrearForm_full_clean dj d data u0) = [Msg correo_duplicado] @ es"
    using h assms by (auto simp: Crear_clean_email_unfold)
  then show m: "Msg correo_duplicado \<in> set (field_errors F_email (UsuarioCrearForm_full_clean dj d data u0))"
    by simp
  show "\<not> is_valid (UsuarioCrearForm_full_clean dj d data u0)"
    by (rule field_errors_invalid [where n = F_email]) (use m in auto)
qed

text \<open>The theorem on ana's email in other letters, and on an email nobody has.\<close>

theorem crear_email_unique_ci_witness:
  "UsuarioCrearForm_clean_email sample_django sample_db
      \<lparr>cleaned_data = empty_cleaned_data\<lparr>cd_email := Some (str '' Ana@Muni.CL '')\<rparr>, errors = [], inst = nuevo\<rparr>
     = Inl [Msg correo_duplicado]
   \<and> UsuarioCrearForm_clean_email sample_django sample_db
      \<lparr>cleaned_data = empty_cleaned_data\<lparr>cd_email := Some (str '' eva@muni.cl '')\<rparr>, errors = [], inst = nuevo\<rparr>
     = Inr (str ''eva@muni.cl'')
   \<and> Msg correo_duplicado \<in> set (field_errors F_email
        (UsuarioCrearForm_full_clean sample_django sample_db (alta(F_email \<mapsto> str ''Ana@Muni.CL'')) nuevo))"
  using crear_email_unique_ci [of "str '' Ana@Muni.CL ''"
      "\<lparr>cleaned_data = empty_cleaned_data\<lparr>cd_email := Some (str '' Ana@Muni.CL '')\<rparr>, errors = [], inst = nuevo\<rparr>"
      sample_django sample_db alta nuevo]
    crear_email_unique_ci [of "str '' eva@muni.cl ''"
      "\<lparr>cleaned_data = empty_cleaned_data\<lparr>cd_email := Some (str '' eva@muni.cl '')\<rparr>, errors = [], inst = nuevo\<rparr>"
      sample_django sample_db alta nuevo]
    crear_email_unique_ci [of "str ''Ana@Muni.CL''"
      "\<lparr>cleaned_data = empty_cleaned_data, errors = [], inst = nuevo\<rparr>"
      sample_django sample_db "alta(F_email \<mapsto> str ''Ana@Muni.CL'')" nuevo]
  by (simp add: sample_django_def sample_db_def ana_def luis_def str_def strip_def isspace_def
      ascii_lower_def CharField_clean_def)

text \<open>
  C2 as stated fails: with no user at all, the empty email is refused, so the validation
  fails although no stored email equals the submitted one.
\<close>

theorem crear_email_unique_ci_counterexample:
  "UsuarioCrearForm_clean_email sample_django empty_db
      \<lparr>cleaned_data = empty_cleaned_data\<lparr>cd_email := Some []\<rparr>, errors = [], inst = nuevo\<rparr>
     = Inl [Msg correo_obligatorio]
   \<and> filter (\<lambda>u. iexact sample_django (email u) []) (auth_user empty_db) = []"
  by (simp add: UsuarioCrearForm_clean_email_def empty_cleaned_data_def strip_def empty_db_def)

text \<open>
  C5. In both forms, when the email that reaches \<^verbatim>\<open>clean_email\<close> is missing, empty or
  only whitespace, \<^verbatim>\<open>clean_email\<close> fails with the message \<^verbatim>\<open>El correo es obligatorio.\<close>, and
  in the bound form that message is attached to the field \<open>email\<close> and the form is invalid.
\<close>

theorem email_obligatorio:
  "(strip (case cd_email (cleaned_data f) of None \<Rightarrow> [] | Some e \<Rightarrow> e) = [] \<longrightarrow>
      UsuarioCrearForm_clean_email dj d f = Inl [Msg correo_obligatorio]
      \<and> UsuarioEditarForm_clean_email dj d f = Inl [Msg correo_obligatorio])
   \<and> (text_field_clean dj F_email (data F_email) = Inr e \<and> strip e = [] \<longrightarrow>
      Msg correo_obligatorio \<in> set (field_errors F_email (UsuarioCrearForm_full_clean dj d data u))
      \<and> Msg correo_obligatorio \<in> set (field_errors F_email (UsuarioEditarForm_full_clean dj d data u))
      \<and> \<not> is_valid (UsuarioCrearForm_full_clean dj d data u)
      \<and> \<not> is_valid (UsuarioEditarForm_full_clean dj d data u))
   \<and> correo_obligatorio = str ''El correo es obligatorio.''"
proof (intro conjI impI)
  assume "strip (case cd_email (cleaned_data f) of None \<Rightarrow> [] | Some e \<Rightarrow> e) = []"
  then show "UsuarioCrearForm_clean_email dj d f = Inl [Msg correo_obligatorio]"
    and "UsuarioEditarForm_clean_email dj d f = Inl [Msg correo_obligatorio]"
    by (simp_all add: Crear_clean_email_unfold Editar_clean_email_unfold)
next
  assume h: "text_field_clean dj F_email (data F_email) = Inr e \<and> strip e = []"
  from Crear_email_errors [of dj d data u] obtain es where
    "field_errors F_email (UsuarioCrearForm_full_clean dj d data u) = [Msg correo_obligatorio] @ es"
    using h by (auto simp: Crear_clean_email_unfold)
  then show c: "Msg correo_obligatorio \<in> set (field_errors F_email (UsuarioCrearForm_full_clean dj d data u))"
    by simp
  from Editar_email_errors [of dj d data u] obtain es' where
    "field_errors F_email (UsuarioEditarForm_full_clean dj d data u) = [Msg correo_obligatorio] @ es'"
    using h by (auto simp: Editar_clean_email_unfold)
  then show e: "Msg correo_obligatorio \<in> set (field_errors F_email (UsuarioEditarForm_full_clean dj d data u))"
    by simp
  show "\<not> is_valid (UsuarioCrearForm_full_clean dj d data u)"
    by (rule field_errors_invalid [where n = F_email]) (use c in auto)
  show "\<not> is_valid (UsuarioEditarForm_full_clean dj d data u)"
    by (rule field_errors_invalid [where n = F_email]) (use e in auto)
next
  show "correo_obligatorio = str ''El correo es obligatorio.''"
    by (simp add: correo_obligatorio_def)
qed

text \<open>The theorem on an email of spaces, and on a submission without email.\<close>

theorem email_obligatorio_witness:
  "UsuarioCrearForm_clean_email sample_django sample_db
      \<lparr>cleaned_data = empty_cleaned_data\<lparr>cd_email := Some (str ''   '')\<rparr>, errors = [], inst = nuevo\<rparr>
     = Inl [Msg correo_obligatorio]
   \<and> UsuarioEditarForm_clean_email sample_django sample_db
      \<lparr>cleaned_data = empty_cleaned_data\<lparr>cd_email := Some (str ''   '')\<rparr>, errors = [], inst = nuevo\<rparr>
     = Inl [Msg correo_obligatorio]
   \<and> Msg correo_obligatorio \<in> set (field_errors F_email
        (UsuarioCrearForm_full_clean sample_django sample_db (alta(F_email \<mapsto> str ''  '')) nuevo))
   \<and> Msg correo_obligatorio \<in> set (field_errors F_email
        (UsuarioEditarForm_full_clean sample_django sample_db (edicion(F_email := None)) ana))"
  using email_obligatorio [of
      "\<lparr>cleaned_data = empty_cleaned_data\<lparr>cd_email := Some (str ''   '')\<rparr>, errors = [], inst = nuevo\<rparr>"
      sample_django sample_db "alta(F_email \<mapsto> str ''  '')" "[]" nuevo]
    email_obligatorio [of
      "\<lparr>cleaned_data = empty_cleaned_data\<lparr>cd_email := Some (str ''   '')\<rparr>, errors = [], inst = nuevo\<rparr>"
      sample_django sample_db "edicion(F_email := None)" "[]" ana]
  by (simp add: sample_django_def str_def strip_def isspace_def CharField_clean_def)

text \<open>
  C8, as amended. In \<^verbatim>\<open>UsuarioEditarForm\<close>, for an email that is not empty after stripping,
  \<^verbatim>\<open>clean_email\<close> fails exactly when the stored email of a user other than the instance
  equals the stripped email under the case-insensitive comparison, and otherwise accepts
  the stripped email; the row of the instance itself never matters, so the user's own
  email, in any letter case, passes when no other user has it.
\<close>

theorem editar_email_excludes_own_record:
  assumes "strip e \<noteq> []"
  shows "(cd_email (cleaned_data f) = Some e \<longrightarrow>
            UsuarioEditarForm_clean_email dj d f =
              (if \<exists>u \<in> set (auth_user d). pk u \<noteq> pk (inst f) \<and> iexact dj (email u) (strip e)
               then Inl [Msg correo_duplicado] else Inr (strip e)))
       \<and> UsuarioEditarForm_clean_email dj
            (d\<lparr>auth_user := filter (\<lambda>u. pk u \<noteq> pk (inst f)) (auth_user d)\<rparr>) f
          = UsuarioEditarForm_clean_email dj d f
       \<and> (text_field_clean dj F_email (data F_email) = Inr e
            \<and> (\<exists>u \<in> set (auth_user d). pk u \<noteq> pk u0 \<and> iexact dj (email u) (strip e)) \<longrightarrow>
            Msg correo_duplicado \<in> set (field_errors F_email (UsuarioEditarForm_full_clean dj d data u0))
            \<and> \<not> is_valid (UsuarioEditarForm_full_clean dj d data u0))"
proof (intro conjI impI)
  assume "cd_email (cleaned_data f) = Some e"
  then show "UsuarioEditarForm_clean_email dj d f =
              (if \<exists>u \<in> set (auth_user d). pk u \<noteq> pk (inst f) \<and> iexact dj (email u) (strip e)
               then Inl [Msg correo_duplicado] else Inr (strip e))"
    using assms by (simp add: Editar_clean_email_unfold Let_def)
next
  show "UsuarioEditarForm_clean_email dj
            (d\<lparr>auth_user := filter (\<lambda>u. pk u \<noteq> pk (inst f)) (auth_user d)\<rparr>) f
          = UsuarioEditarForm_clean_email dj d f"
    by (auto simp: Editar_clean_email_unfold Let_def)
next
  assume h: "text_field_clean dj F_email (data F_email) = Inr e
            \<and> (\<exists>u \<in> set (auth_user d). pk u \<noteq> pk u0 \<and> iexact dj (email u) (strip e))"
  from Editar_email_errors [of dj d data u0] obtain es where
    "field_errors F_email (UsuarioEditarForm_full_clean dj d data u0) = [Msg correo_duplicado] @ es"
    using h assms by (auto simp: Editar_clean_email_unfold)
  then show m: "Msg correo_duplicado \<in> set (field_errors F_email (UsuarioEditarForm_full_clean dj d data u0))"
    by simp
  show "\<not> is_valid (UsuarioEditarForm_full_clean dj d data u0)"
    by (rule field_errors_invalid [where n = F_email]) (use m in auto)
qed

text \<open>
  The theorem on ana's email in capitals: accepted for ana herself, refused for luis.
\<close>

theorem editar_email_excludes_own_record_witness:
  "UsuarioEditarForm_clean_email sample_django sample_db
      \<lparr>cleaned_data = empty_cleaned_data\<lparr>cd_email := Some (str ''ANA@MUNI.CL'')\<rparr>, errors = [], inst = ana\<rparr>
     = Inr (str ''ANA@MUNI.CL'')
   \<and> UsuarioEditarForm_clean_email sample_django sample_db
      \<lparr>cleaned_data = empty_cleaned_data\<lparr>cd_email := Some (str ''ANA@MUNI.CL'')\<rparr>, errors = [], inst = luis\<rparr>
     = Inl [Msg correo_duplicado]
   \<and> Msg correo_duplicado \<in> set (field_errors F_email
        (UsuarioEditarForm_full_clean sample_django sample_db edicion luis))"
  using editar_email_excludes_own_record [of "str ''ANA@MUNI.CL''"
      "\<lparr>cleaned_data = empty_cleaned_data\<lparr>cd_email := Some (str ''ANA@MUNI.CL'')\<rparr>, errors = [], inst = ana\<rparr>"
      sample_django sample_db edicion ana]
    editar_email_excludes_own_record [of "str ''ANA@MUNI.CL''"
      "\<lparr>cleaned_data = empty_cleaned_data\<lparr>cd_email := Some (str ''ANA@MUNI.CL'')\<rparr>, errors = [], inst = luis\<rparr>"
      sample_django sample_db edicion luis]
  by (simp add: sample_django_def sample_db_def ana_def luis_def edicion_def str_def strip_def
      isspace_def ascii_lower_def CharField_clean_def)

text \<open>
  C8 as stated fails: luis is stored with an empty email, and resubmitting it is refused
  as a missing email; and when a second user is stored with ana's email, ana's own
  current email is refused as a duplicate.
\<close>

theorem editar_email_excludes_own_record_counterexample:
  "UsuarioEditarForm_clean_email sample_django sample_db
      \<lparr>cleaned_data = empty_cleaned_data\<lparr>cd_email := Some (email luis)\<rparr>, errors = [], inst = luis\<rparr>
     = Inl [Msg correo_obligatorio]
   \<and> luis \<in> set (auth_user sample_db)
   \<and> UsuarioEditarForm_clean_email sample_django
      (sample_db\<lparr>auth_user := [ana, luis\<lparr>email := email ana\<rparr>]\<rparr>)
      \<lparr>cleaned_data = empty_cleaned_data\<lparr>cd_email := Some (email ana)\<rparr>, errors = [], inst = ana\<rparr>
     = Inl [Msg correo_duplicado]"
  by (simp add: UsuarioEditarForm_clean_email_def empty_cleaned_data_def sample_django_def
      sample_db_def ana_def luis_def str_def strip_def isspace_def ascii_lower_def)

text \<open>
  C1. For a valid form whose cleaned \<open>rol\<close> is \<open>r\<close>, in a database with at most one group
  of that name (the name of a group is unique), \<^verbatim>\<open>save(commit=True)\<close> of either form
  returns the saved user, and afterwards the rows of \<^verbatim>\<open>user.groups\<close> for that user are
  exactly one, the group named \<open>r\<close>: the rows the user had are gone, and the group is the
  one that existed or, when none did, a new one appended to the groups. (In
  \<^verbatim>\<open>UsuarioCrearForm\<close> a valid form has a cleaned \<open>password1\<close>.)
\<close>

theorem save_leaves_single_rol_group:
  assumes "is_valid f" and "cd_rol (cleaned_data f) = Some r"
    and "length (filter (\<lambda>g. group_name g = r) (auth_group d)) \<le> 1"
  shows "(\<forall>p. cd_password1 (cleaned_data f) = Some p \<longrightarrow>
           (\<exists>u' d' k g. UsuarioCrearForm_save dj True f d = Inr (u', d')
              \<and> pk u' = Some k \<and> u' \<in> set (auth_user d')
              \<and> group_ids_of d' k = [group_id g]
              \<and> filter (\<lambda>x. group_name x = r) (auth_group d') = [g]
              \<and> auth_group d' =
                  (if filter (\<lambda>x. group_name x = r) (auth_group d) = []
                   then auth_group d @ [g] else auth_group d)
              \<and> (distinct (map group_id (auth_group d)) \<longrightarrow> group_names_of d' k = [r])))
       \<and> (\<exists>u' d' k g. UsuarioEditarForm_save dj True f d = Inr (u', d')
              \<and> pk u' = Some k \<and> u' \<in> set (auth_user d')
              \<and> group_ids_of d' k = [group_id g]
              \<and> filter (\<lambda>x. group_name x = r) (auth_group d') = [g]
              \<and> auth_group d' =
                  (if filter (\<lambda>x. group_name x = r) (auth_group d) = []
                   then auth_group d @ [g] else auth_group d)
              \<and> (distinct (map group_id (auth_group d)) \<longrightarrow> group_names_of d' k = [r]))"
proof (intro conjI allI impI)
  fix p
  assume p: "cd_password1 (cleaned_data f) = Some p"
  have s: "UsuarioCrearForm_save dj True f d = commit_steps f (set_password dj p (inst f)) d"
    using assms(1) p by (simp add: Crear_save_commit is_valid_def)
  from commit_steps_result [OF assms(2,3), of "set_password dj p (inst f)"]
  show "\<exists>u' d' k g. UsuarioCrearForm_save dj True f d = Inr (u', d')
              \<and> pk u' = Some k \<and> u' \<in> set (auth_user d')
              \<and> group_ids_of d' k = [group_id g]
              \<and> filter (\<lambda>x. group_name x = r) (auth_group d') = [g]
              \<and> auth_group d' =
                  (if filter (\<lambda>x. group_name x = r) (auth_group d) = []
                   then auth_group d @ [g] else auth_group d)
              \<and> (distinct (map group_id (auth_group d)) \<longrightarrow> group_names_of d' k = [r])"
    unfolding s by fastforce
next
  define u1 where "u1 = (case cd_password1 (cleaned_data f) of
                None \<Rightarrow> inst f
              | Some p1 \<Rightarrow> if p1 \<noteq> [] then set_password dj p1 (inst f) else inst f)"
  have s: "UsuarioEditarForm_save dj True f d = commit_steps f u1 d"
    using assms(1) by (simp add: Editar_save_commit is_valid_def u1_def)
  from commit_steps_result [OF assms(2,3), of u1]
  show "\<exists>u' d' k g. UsuarioEditarForm_save dj True f d = Inr (u', d')
              \<and> pk u' = Some k \<and> u' \<in> set (auth_user d')
              \<and> group_ids_of d' k = [group_id g]
              \<and> filter (\<lambda>x. group_name x = r) (auth_group d') = [g]
              \<and> auth_group d' =
                  (if filter (\<lambda>x. group_name x = r) (auth_group d) = []
                   then auth_group d @ [g] else auth_group d)
              \<and> (distinct (map group_id (auth_group d)) \<longrightarrow> group_names_of d' k = [r])"
    unfolding s by fastforce
qed


text \<open>
  The theorem on the creation of eva, whose role has no group yet, and on the edit of
  ana, who is in two groups and gets the existing group Territorial.
\<close>

theorem save_leaves_single_rol_group_witness:
  "(\<exists>u' d' k g. UsuarioCrearForm_save sample_django True
        (UsuarioCrearForm_full_clean sample_django sample_db alta nuevo) sample_db = Inr (u', d')
      \<and> pk u' = Some k \<and> u' \<in> set (auth_user d')
      \<and> group_ids_of d' k = [group_id g]
      \<and> group_names_of d' k = [str ''Administrador'']
      \<and> auth_group d' = auth_group sample_db @ [g])
   \<and> (\<exists>u' d' k (g::group). UsuarioEditarForm_save sample_django True
        (UsuarioEditarForm_full_clean sample_django sample_db (edicion(F_rol \<mapsto> str ''Territorial'')) ana)
        sample_db = Inr (u', d')
      \<and> pk u' = Some k \<and> u' \<in> set (auth_user d')
      \<and> group_ids_of d' k = [group_id g]
      \<and> group_names_of d' k = [str ''Territorial'']
      \<and> auth_group d' = auth_group sample_db)"
proof -
  let ?A = "UsuarioCrearForm_full_clean sample_django sample_db alta nuevo"
  let ?E = "UsuarioEditarForm_full_clean sample_django sample_db (edicion(F_rol \<mapsto> str ''Territorial'')) ana"
  have dist: "distinct (map group_id (auth_group sample_db))"
    by (simp add: sample_db_def)
  have a1: "is_valid ?A" by (simp add: sample_alta is_valid_def)
  have a2: "cd_rol (cleaned_data ?A) = Some (str ''Administrador'')" by (simp add: sample_alta)
  have a3: "length (filter (\<lambda>g. group_name g = str ''Administrador'') (auth_group sample_db)) \<le> 1"
    by (simp add: sample_db_def str_def)
  have a4: "cd_password1 (cleaned_data ?A) = Some (str ''clave1234'')" by (simp add: sample_alta)
  have a5: "filter (\<lambda>g. group_name g = str ''Administrador'') (auth_group sample_db) = []"
    by (simp add: sample_db_def str_def)
  have e1: "is_valid ?E" by (simp add: sample_edicion_territorial is_valid_def)
  have e2: "cd_rol (cleaned_data ?E) = Some (str ''Territorial'')"
    by (simp add: sample_edicion_territorial)
  have e3: "length (filter (\<lambda>g. group_name g = str ''Territorial'') (auth_group sample_db)) \<le> 1"
    by (simp add: sample_db_def str_def)
  have e5: "filter (\<lambda>g. group_name g = str ''Territorial'') (auth_group sample_db) \<noteq> []"
    by (simp add: sample_db_def str_def)
  from save_leaves_single_rol_group [OF a1 a2 a3, of sample_django] a4
  obtain u' d' k g where
    x: "UsuarioCrearForm_save sample_django True ?A sample_db = Inr (u', d')"
      "pk u' = Some k" "u' \<in> set (auth_user d')" "group_ids_of d' k = [group_id g]"
    and xg: "auth_group d' =
        (if filter (\<lambda>x. group_name x = str ''Administrador'') (auth_group sample_db) = []
         then auth_group sample_db @ [g] else auth_group sample_db)"
    and xn: "distinct (map group_id (auth_group sample_db)) \<longrightarrow>
        group_names_of d' k = [str ''Administrador'']"
    by blast
  have x5: "group_names_of d' k = [str ''Administrador'']" using xn dist by simp
  have x6: "auth_group d' = auth_group sample_db @ [g]" using xg a5 by simp
  from x(1) x(2) x(3) x(4) x5 x6 have A: "\<exists>u' d' k g. UsuarioCrearForm_save sample_django True ?A sample_db = Inr (u', d')
      \<and> pk u' = Some k \<and> u' \<in> set (auth_user d')
      \<and> group_ids_of d' k = [group_id g]
      \<and> group_names_of d' k = [str ''Administrador'']
      \<and> auth_group d' = auth_group sample_db @ [g]"
    by (intro exI conjI) assumption+
  from save_leaves_single_rol_group [OF e1 e2 e3, of sample_django]
  obtain v' c' j h where
    y: "UsuarioEditarForm_save sample_django True ?E sample_db = Inr (v', c')"
      "pk v' = Some j" "v' \<in> set (auth_user c')" "group_ids_of c' j = [group_id h]"
    and yg: "auth_group c' =
        (if filter (\<lambda>x. group_name x = str ''Territorial'') (auth_group sample_db) = []
         then auth_group sample_db @ [h] else auth_group sample_db)"
    and yn: "distinct (map group_id (auth_group sample_db)) \<longrightarrow>
        group_names_of c' j = [str ''Territorial'']"
    by blast
  have y5: "group_names_of c' j = [str ''Territorial'']" using yn dist by simp
  have y6: "auth_group c' = auth_group sample_db" using yg e5 by simp
  from y(1) y(2) y(3) y(4) y5 y6 have E: "\<exists>u' d' k (g::group). UsuarioEditarForm_save sample_django True ?E sample_db = Inr (u', d')
      \<and> pk u' = Some k \<and> u' \<in> set (auth_user d')
      \<and> group_ids_of d' k = [group_id g]
      \<and> group_names_of d' k = [str ''Territorial'']
      \<and> auth_group d' = auth_group sample_db"
    by (intro exI conjI) assumption+
  show ?thesis using A E by blast
qed

text \<open>
  C6. For a valid \<^verbatim>\<open>UsuarioCrearForm\<close> with cleaned \<open>password1\<close> = \<open>p\<close>, the user that
  \<^verbatim>\<open>save\<close> returns, and the row it stores when it commits, is the form's instance with
  the password field set to what the framework's hasher makes of \<open>p\<close>, whatever the
  hasher is; cleaning the form does not touch the password field.
\<close>

theorem crear_save_stores_hash:
  assumes "is_valid f" and "cd_password1 (cleaned_data f) = Some p"
  shows "UsuarioCrearForm_save dj False f d = Inr ((inst f)\<lparr>password := make_password dj p\<rparr>, d)
       \<and> (cd_rol (cleaned_data f) = Some r
            \<and> length (filter (\<lambda>g. group_name g = r) (auth_group d)) \<le> 1 \<longrightarrow>
          (\<exists>k d'. UsuarioCrearForm_save dj True f d =
                     Inr ((inst f)\<lparr>password := make_password dj p, pk := Some k\<rparr>, d')
             \<and> (inst f)\<lparr>password := make_password dj p, pk := Some k\<rparr> \<in> set (auth_user d')))
       \<and> (f = UsuarioCrearForm_full_clean dj d data u \<longrightarrow> password (inst f) = password u)"
proof (intro conjI impI)
  show "UsuarioCrearForm_save dj False f d = Inr ((inst f)\<lparr>password := make_password dj p\<rparr>, d)"
    using assms
    by (simp add: UsuarioCrearForm_save_def ModelForm_save_def is_valid_def set_password_def Let_def)
next
  assume h: "cd_rol (cleaned_data f) = Some r
            \<and> length (filter (\<lambda>g. group_name g = r) (auth_group d)) \<le> 1"
  have s: "UsuarioCrearForm_save dj True f d = commit_steps f (set_password dj p (inst f)) d"
    using assms by (simp add: Crear_save_commit is_valid_def)
  from h have h1: "cd_rol (cleaned_data f) = Some r"
    and h2: "length (filter (\<lambda>g. group_name g = r) (auth_group d)) \<le> 1" by simp_all
  from commit_steps_result [OF h1 h2, of "set_password dj p (inst f)"]
  show "\<exists>k d'. UsuarioCrearForm_save dj True f d =
                     Inr ((inst f)\<lparr>password := make_password dj p, pk := Some k\<rparr>, d')
             \<and> (inst f)\<lparr>password := make_password dj p, pk := Some k\<rparr> \<in> set (auth_user d')"
    unfolding s by (auto simp: set_password_def)
next
  assume "f = UsuarioCrearForm_full_clean dj d data u"
  then show "password (inst f) = password u"
    by (simp add: UsuarioCrearForm_full_clean_def post_clean_inst)
qed

text \<open>The theorem on the creation of eva: the stored password is the hash, not the password.\<close>

theorem crear_save_stores_hash_witness:
  "UsuarioCrearForm_save sample_django False
      (UsuarioCrearForm_full_clean sample_django sample_db alta nuevo) sample_db
     = Inr ((inst (UsuarioCrearForm_full_clean sample_django sample_db alta nuevo))
              \<lparr>password := str ''hash:clave1234''\<rparr>, sample_db)
   \<and> (\<exists>k d'. UsuarioCrearForm_save sample_django True
          (UsuarioCrearForm_full_clean sample_django sample_db alta nuevo) sample_db
        = Inr ((inst (UsuarioCrearForm_full_clean sample_django sample_db alta nuevo))
                 \<lparr>password := str ''hash:clave1234'', pk := Some k\<rparr>, d'))
   \<and> str ''hash:clave1234'' \<noteq> str ''clave1234''"
proof -
  let ?A = "UsuarioCrearForm_full_clean sample_django sample_db alta nuevo"
  have a1: "is_valid ?A" by (simp add: sample_alta is_valid_def)
  have a2: "cd_rol (cleaned_data ?A) = Some (str ''Administrador'')" by (simp add: sample_alta)
  have a3: "length (filter (\<lambda>g. group_name g = str ''Administrador'') (auth_group sample_db)) \<le> 1"
    by (simp add: sample_db_def str_def)
  have a4: "cd_password1 (cleaned_data ?A) = Some (str ''clave1234'')" by (simp add: sample_alta)
  have h: "make_password sample_django (str ''clave1234'') = str ''hash:clave1234''"
    by (simp add: sample_django_def str_def)
  have n: "str ''hash:clave1234'' \<noteq> str ''clave1234''" by (simp add: str_def)
  show ?thesis
    using crear_save_stores_hash [OF a1 a4, of sample_django sample_db "str ''Administrador''" alta nuevo]
      a2 a3 n unfolding h by blast
qed


subsection \<open>The edit form, saved\<close>







end
